theory Spec2Isabelle
  imports Complex_Main "HOL-Library.Multiset"
begin

section \<open>JavaScript strings\<close>

text \<open>
  Strings are \<^typ>\<open>string\<close> (lists of characters).  A character stands for a code
  unit of a JavaScript string with a value below 256 (\<open>CHR 0xA0\<close> is U+00A0); a string
  with a higher code unit has no counterpart here.  \<open>is_space\<close> holds of the white
  space and line terminators of JavaScript, which \<open>trim\<close> removes: in this range they
  are tab, line feed, vertical tab, form feed, carriage return, space and the no-break
  space U+00A0 (the others, U+1680, U+2000 to U+200A, U+2028, U+2029, U+202F, U+205F,
  U+3000 and U+FEFF, lie above it).
\<close>

definition is_space :: "char \<Rightarrow> bool" where
  "is_space c =
     (c \<in> set [CHR 0x09, CHR 0x0A, CHR 0x0B, CHR 0x0C, CHR 0x0D, CHR 0x20, CHR 0xA0])"

text \<open>
  The letters with an upper and a lower case in this range, in corresponding order:
  A to Z, and U+00C0 to U+00DE without the multiplication sign U+00D7.
\<close>

definition upper_letters :: string where
  "upper_letters =
     ''ABCDEFGHIJKLMNOPQRSTUVWXYZ'' @
      [
        CHR 0xC0, CHR 0xC1, CHR 0xC2, CHR 0xC3, CHR 0xC4, CHR 0xC5, CHR 0xC6, CHR 0xC7,
        CHR 0xC8, CHR 0xC9, CHR 0xCA, CHR 0xCB, CHR 0xCC, CHR 0xCD, CHR 0xCE, CHR 0xCF,
        CHR 0xD0, CHR 0xD1, CHR 0xD2, CHR 0xD3, CHR 0xD4, CHR 0xD5, CHR 0xD6, CHR 0xD8,
        CHR 0xD9, CHR 0xDA, CHR 0xDB, CHR 0xDC, CHR 0xDD, CHR 0xDE]"

definition lower_letters :: string where
  "lower_letters =
     ''abcdefghijklmnopqrstuvwxyz'' @
      [
        CHR 0xE0, CHR 0xE1, CHR 0xE2, CHR 0xE3, CHR 0xE4, CHR 0xE5, CHR 0xE6, CHR 0xE7,
        CHR 0xE8, CHR 0xE9, CHR 0xEA, CHR 0xEB, CHR 0xEC, CHR 0xED, CHR 0xEE, CHR 0xEF,
        CHR 0xF0, CHR 0xF1, CHR 0xF2, CHR 0xF3, CHR 0xF4, CHR 0xF5, CHR 0xF6, CHR 0xF8,
        CHR 0xF9, CHR 0xFA, CHR 0xFB, CHR 0xFC, CHR 0xFD, CHR 0xFE]"

definition lower_char :: "char \<Rightarrow> char" where
  "lower_char c = (case map_of (zip upper_letters lower_letters) c of Some d \<Rightarrow> d | None \<Rightarrow> c)"

definition upper_char :: "char \<Rightarrow> char" where
  "upper_char c = (case map_of (zip lower_letters upper_letters) c of Some d \<Rightarrow> d | None \<Rightarrow> c)"

definition toLowerCase :: "string \<Rightarrow> string" where
  "toLowerCase s = map lower_char s"

text \<open>
  \<open>s.toUpperCase()\<close>: the sharp s U+00DF becomes \<open>SS\<close>.  The micro sign U+00B5
  and U+00FF, whose upper-case letters lie above the range, are kept as they are.
\<close>

definition toUpperCase :: "string \<Rightarrow> string" where
  "toUpperCase s = concat (map (\<lambda>c. if c = CHR 0xDF then ''SS'' else [upper_char c]) s)"

text \<open>\<open>s.trim()\<close>\<close>

definition trim :: "string \<Rightarrow> string" where
  "trim s = rev (dropWhile is_space (rev (dropWhile is_space s)))"

text \<open>\<open>s.startsWith(p)\<close>\<close>

fun startsWith :: "string \<Rightarrow> string \<Rightarrow> bool" where
  "startsWith s [] = True"
| "startsWith [] (p # ps) = False"
| "startsWith (c # cs) (p # ps) = (c = p \<and> startsWith cs ps)"

text \<open>\<open>s.includes(q)\<close>: \<open>q\<close> occurs in \<open>s\<close> as a contiguous substring.\<close>

fun includes_str :: "string \<Rightarrow> string \<Rightarrow> bool" where
  "includes_str [] q = (q = [])"
| "includes_str (c # cs) q = (startsWith (c # cs) q \<or> includes_str cs q)"

text \<open>\<open>s.split(sep)\<close> for a one-character separator: never empty, \<open>''''\<close> gives \<open>['''']\<close>.\<close>

fun split :: "char \<Rightarrow> string \<Rightarrow> string list" where
  "split sep [] = [[]]"
| "split sep (c # cs) =
     (case split sep cs of
        [] \<Rightarrow> (if c = sep then [[], []] else [[c]])
      | w # ws \<Rightarrow> (if c = sep then [] # w # ws else (c # w) # ws))"

text \<open>\<open>xs.join(sep)\<close>\<close>

fun join :: "string \<Rightarrow> string list \<Rightarrow> string" where
  "join sep [] = []"
| "join sep [x] = x"
| "join sep (x # y # ys) = x @ sep @ join sep (y # ys)"

text \<open>Decimal rendering of a number inside a template literal.\<close>

definition digit_char :: "nat \<Rightarrow> char" where
  "digit_char d = ''0123456789'' ! (d mod 10)"

function show_nat :: "nat \<Rightarrow> string" where
  "show_nat n = (if n < 10 then [digit_char n] else show_nat (n div 10) @ [digit_char (n mod 10)])"
  by pat_completeness auto
termination
  by (relation "measure id") auto

declare show_nat.simps [simp del]

text \<open>
  \<open>path.basename(p)\<close> on POSIX paths: trailing separators are dropped, then the part
  after the last \<open>/\<close> is kept.
\<close>

definition basename :: "string \<Rightarrow> string" where
  "basename p =
     rev (takeWhile (\<lambda>c. c \<noteq> CHR ''/'') (dropWhile (\<lambda>c. c = CHR ''/'') (rev p)))"

text \<open>\<open>path.join(dir, name)\<close> for a directory and an entry name of it.\<close>

definition path_join :: "string \<Rightarrow> string \<Rightarrow> string" where
  "path_join dir name = dir @ ''/'' @ name"


section \<open>Types of the component index (\<open>lib/rag/types\<close>)\<close>

datatype facet_type = Description | Api | Example | Usage

fun facet_name :: "facet_type \<Rightarrow> string" where
  "facet_name Description = ''description''"
| "facet_name Api = ''api''"
| "facet_name Example = ''example''"
| "facet_name Usage = ''usage''"

record ComponentDoc =
  packageName :: string
  componentName :: string
  description :: string
  api :: string
  examples :: "string list"
  tags :: "string list"
  version :: string
  dependencies :: "string list"
  updatedAt :: string

record Metadata =
  md_componentName :: string
  md_packageName :: string
  md_type :: facet_type
  md_tags :: "string list"
  md_version :: string

text \<open>Embeddings are lists of numbers; the IEEE doubles of the source are read as reals.\<close>

type_synonym vector = "real list"

record VectorDocument =
  doc_id :: string
  content :: string
  embedding :: vector
  metadata :: Metadata

datatype parse_status = Success | Error | Partial

record ParsedComponent =
  info :: ComponentDoc
  filePath :: string
  status :: parse_status
  error :: "string option"

text \<open>
  \<open>RAGError\<close> and its subclasses \<open>ComponentParseError\<close>, \<open>VectorStoreError\<close> and
  \<open>EmbeddingError\<close>: a code and a message.  None of them sets \<open>name\<close> anew, so every
  one is rendered by a template literal as \<open>RAGError: <message>\<close>.
\<close>

datatype rag_error = RAGError (err_code: string) (err_message: string)

definition ComponentParseError :: "string \<Rightarrow> rag_error" where
  "ComponentParseError msg = RAGError ''COMPONENT_PARSE_ERROR'' msg"

definition VectorStoreError :: "string \<Rightarrow> rag_error" where
  "VectorStoreError msg = RAGError ''VECTOR_STORE_ERROR'' msg"

definition EmbeddingError :: "string \<Rightarrow> rag_error" where
  "EmbeddingError msg = RAGError ''EMBEDDING_ERROR'' msg"

definition error_string :: "rag_error \<Rightarrow> string" where
  "error_string e = ''RAGError: '' @ err_message e"


section \<open>Parser (\<open>ComponentParser\<close>)\<close>

text \<open>\<open>capitalizeComponentName\<close>: split at \<open>-\<close>, upper-case each first letter, join.\<close>

definition capitalizeWord :: "string \<Rightarrow> string" where
  "capitalizeWord w = (case w of [] \<Rightarrow> [] | c # cs \<Rightarrow> toUpperCase [c] @ cs)"

definition capitalizeComponentName :: "string \<Rightarrow> string" where
  "capitalizeComponentName name = concat (map capitalizeWord (split (CHR ''-'') name))"

text \<open>The table of \<open>extractTags\<close>, in the order of the source.\<close>

definition tagMapping :: "(string \<times> string list) list" where
  "tagMapping =
    [(''button'', [''form'', ''action'', ''ui'', ''interactive'']),
     (''input'', [''form'', ''data-entry'', ''ui'']),
     (''table'', [''data-display'', ''list'', ''ui'']),
     (''form'', [''data-entry'', ''validation'', ''ui'']),
     (''modal'', [''feedback'', ''overlay'', ''ui'']),
     (''alert'', [''feedback'', ''message'', ''ui'']),
     (''card'', [''data-display'', ''container'', ''ui'']),
     (''menu'', [''navigation'', ''ui'']),
     (''breadcrumb'', [''navigation'', ''ui'']),
     (''pagination'', [''navigation'', ''data-display'', ''ui'']),
     (''tabs'', [''navigation'', ''ui'']),
     (''select'', [''form'', ''data-entry'', ''ui'']),
     (''checkbox'', [''form'', ''data-entry'', ''ui'']),
     (''radio'', [''form'', ''data-entry'', ''ui'']),
     (''switch'', [''form'', ''data-entry'', ''ui'']),
     (''slider'', [''form'', ''data-entry'', ''ui'']),
     (''upload'', [''form'', ''data-entry'', ''ui'']),
     (''progress'', [''feedback'', ''ui'']),
     (''spin'', [''feedback'', ''loading'', ''ui'']),
     (''avatar'', [''data-display'', ''ui'']),
     (''badge'', [''data-display'', ''ui'']),
     (''tag'', [''data-display'', ''ui'']),
     (''tooltip'', [''data-display'', ''overlay'', ''ui'']),
     (''popover'', [''data-display'', ''overlay'', ''ui'']),
     (''dropdown'', [''navigation'', ''overlay'', ''ui''])]"

text \<open>
  \<open>tagMapping[componentName]\<close> is a property read on an object literal.  Besides the
  keys of the table it finds the properties every object inherits; the only ones spelt
  in lower case are \<open>constructor\<close> and \<open>__proto__\<close>.  Their values are truthy and not
  iterable, so the spread \<open>[...baseTags, 'react', 'component']\<close> throws a TypeError.
\<close>

definition inheritedKeys :: "string list" where
  "inheritedKeys = [''constructor'', ''__proto__'']"

datatype js_error = TypeError string

definition extractTags :: "string \<Rightarrow> js_error + string list" where
  "extractTags componentPath =
     (let componentName = toLowerCase (basename componentPath) in
      case map_of tagMapping componentName of
        Some baseTags \<Rightarrow> Inr (baseTags @ [''react'', ''component''])
      | None \<Rightarrow>
          if componentName \<in> set inheritedKeys then Inl (TypeError ''baseTags is not iterable'')
          else Inr ([''ui''] @ [''react'', ''component'']))"


text \<open>
  \<open>lines.findIndex((line, index) => ...)\<close>: the first position that satisfies the
  test; \<open>None\<close> is the result \<open>-1\<close>.
\<close>

fun findIndex :: "(nat \<Rightarrow> 'a \<Rightarrow> bool) \<Rightarrow> nat \<Rightarrow> 'a list \<Rightarrow> nat option" where
  "findIndex p i [] = None"
| "findIndex p i (x # xs) = (if p i x then Some i else findIndex p (Suc i) xs)"

text \<open>
  \<open>extractDescription\<close>.  \<open>markdown\<close> is the content of \<open>index.en-US.md\<close>, \<open>None\<close>
  when reading it fails.  \<open>descriptionLines || fallback\<close> takes the fall-back for the
  empty string.
\<close>

definition extractDescription :: "string option \<Rightarrow> string \<Rightarrow> string" where
  "extractDescription markdown componentPath =
     (let fallback = capitalizeComponentName (basename componentPath) @ '' component'' in
      case markdown of
        None \<Rightarrow> fallback
      | Some text \<Rightarrow>
          let lines = split (CHR 0x0A) text in
          (case findIndex (\<lambda>i line. trim line = ''---'') 0 lines of
             None \<Rightarrow> fallback
           | Some startIndex \<Rightarrow>
               (case findIndex (\<lambda>i line. i > startIndex \<and> startsWith line ''## '') 0 lines of
                  None \<Rightarrow> fallback
                | Some endIndex \<Rightarrow>
                    let descriptionLines =
                          trim (join '' ''
                            (filter (\<lambda>line. \<not> startsWith line ''---'' \<and> trim line \<noteq> [])
                               (take (endIndex - (startIndex + 1)) (drop (startIndex + 1) lines))))
                    in if descriptionLines \<noteq> [] then descriptionLines else fallback)))"

text \<open>
  What the parser finds in one component directory.  \<open>accessible\<close>: \<open>fs.access\<close> of the
  directory succeeds.  The results of \<open>extractAPI\<close>, \<open>extractExamples\<close> and
  \<open>extractDependencies\<close>, none of which throws, are taken as read from the directory.
\<close>

record ComponentFiles =
  accessible :: bool
  markdown :: "string option"
  apiSection :: string
  demoExamples :: "string list"
  importedComponents :: "string list"

text \<open>
  \<open>extractComponentDoc\<close>: \<open>Promise.all\<close> over the five extractors rejects when
  \<open>extractTags\<close> throws.  \<open>pkg\<close> is the parser's package name, \<open>ver\<close> the result of
  \<open>extractVersion\<close>, \<open>now\<close> the time stamp.
\<close>

definition extractComponentDoc ::
  "string \<Rightarrow> string \<Rightarrow> string \<Rightarrow> ComponentFiles \<Rightarrow> string \<Rightarrow> string \<Rightarrow> js_error + ComponentDoc" where
  "extractComponentDoc pkg ver now files componentPath name =
     (case extractTags componentPath of
        Inl e \<Rightarrow> Inl e
      | Inr ts \<Rightarrow>
          Inr \<lparr>packageName = pkg,
               componentName = capitalizeComponentName name,
               description = extractDescription (markdown files) componentPath,
               api = apiSection files,
               examples = demoExamples files,
               tags = ts,
               version = ver,
               dependencies = importedComponents files,
               updatedAt = now\<rparr>)"

definition componentDir :: "string \<Rightarrow> string \<Rightarrow> string" where
  "componentDir sourcePath name = path_join (path_join sourcePath ''components'') name"

definition parseComponent ::
  "string \<Rightarrow> string \<Rightarrow> string \<Rightarrow> string \<Rightarrow> ComponentFiles \<Rightarrow> string \<Rightarrow> rag_error + ParsedComponent" where
  "parseComponent sourcePath pkg ver now files name =
     (let componentPath = componentDir sourcePath name in
      if \<not> accessible files
      then Inl (ComponentParseError
                 (''Failed to parse component '' @ name @ '': Error: ENOENT: no such file or directory''))
      else
        (case extractComponentDoc pkg ver now files componentPath name of
           Inl (TypeError m) \<Rightarrow>
             Inl (ComponentParseError
                   (''Failed to parse component '' @ name @ '': TypeError: '' @ m))
         | Inr componentDoc \<Rightarrow>
             Inr \<lparr>info = componentDoc, filePath = componentPath, status = Success, error = None\<rparr>))"

definition createEmptyComponentDoc :: "string \<Rightarrow> string \<Rightarrow> string \<Rightarrow> ComponentDoc" where
  "createEmptyComponentDoc pkg now name =
     \<lparr>packageName = pkg,
      componentName = capitalizeComponentName name,
      description = capitalizeComponentName name @ '' component'',
      api = ''API documentation not available'',
      examples = [],
      tags = [''ui'', ''react'', ''component''],
      version = ''1.0.0'',
      dependencies = [],
      updatedAt = now\<rparr>"

text \<open>
  \<open>parseAllComponents\<close>.  \<open>listing\<close> is the result of \<open>readdir\<close> on the components
  directory, \<open>None\<close> when it fails, each entry with its \<open>isDirectory()\<close>;
  \<open>files_of\<close> gives the content of each directory.
\<close>

definition parseAllComponents ::
  "string \<Rightarrow> string \<Rightarrow> string \<Rightarrow> string \<Rightarrow> (string \<times> bool) list option
     \<Rightarrow> (string \<Rightarrow> ComponentFiles) \<Rightarrow> rag_error + ParsedComponent list" where
  "parseAllComponents sourcePath pkg ver now listing files_of =
     (case listing of
        None \<Rightarrow> Inl (ComponentParseError ''Failed to parse components: Error: ENOENT'')
      | Some entries \<Rightarrow>
          let componentDirs =
                map fst (filter (\<lambda>(name, isDirectory). isDirectory \<and> \<not> startsWith name ''_'') entries)
          in Inr (map (\<lambda>name.
                    case parseComponent sourcePath pkg ver now (files_of name) name of
                      Inr parsed \<Rightarrow> parsed
                    | Inl e \<Rightarrow>
                        \<lparr>info = createEmptyComponentDoc pkg now name,
                         filePath = componentDir sourcePath name,
                         status = Error,
                         error = Some (err_message e)\<rparr>)
                  componentDirs))"


section \<open>Embedder (\<open>OpenAIEmbeddings\<close>)\<close>

text \<open>
  The embedding provider is outside the repository.  Within one \<open>createEmbedding\<close>,
  \<open>prov attempt texts\<close> is the outcome of the \<open>attempt\<close>-th call of
  \<open>client.embeddings.create\<close> on \<open>texts\<close>: \<open>Inl msg\<close> when the call throws an
  \<open>Error\<close> with message \<open>msg\<close>, \<open>Inr data\<close> when it answers; \<open>data\<close> holds the
  \<open>(index, embedding)\<close> items of \<open>response.data\<close> in the order received.
\<close>

type_synonym provider = "nat \<Rightarrow> string list \<Rightarrow> string + (nat \<times> vector) list"

text \<open>
  The three \<open>throw\<close>s after a failed last attempt, in the order of the source: the
  message is tested for \<open>quota\<close>, then for \<open>401\<close>.
\<close>

definition finalError :: "nat \<Rightarrow> string \<Rightarrow> rag_error" where
  "finalError maxRetries msg =
     (if includes_str msg ''quota''
      then EmbeddingError ''OpenAI API quota exceeded. Please check your billing.''
      else if includes_str msg ''401''
      then EmbeddingError ''OpenAI API authentication failed. Please check your API key.''
      else EmbeddingError
             (''OpenAI API error after '' @ show_nat maxRetries @ '' attempts: '' @ msg))"

text \<open>
  The loop of \<open>createEmbedding\<close> from attempt number \<open>attempt\<close> on.  The second
  component of the result lists the delays slept so far (in milliseconds), one per retry.
  \<open>response.data.sort((a, b) => a.index - b.index)\<close> is a stable sort on the index.
\<close>

function createEmbedding_from ::
  "nat \<Rightarrow> nat \<Rightarrow> provider \<Rightarrow> string list \<Rightarrow> nat \<Rightarrow> nat list
     \<Rightarrow> (rag_error + vector list) \<times> nat list" where
  "createEmbedding_from maxRetries retryDelay prov texts attempt delays =
     (if attempt \<le> maxRetries then
        (case prov attempt texts of
           Inr data \<Rightarrow> (Inr (map snd (sort_key fst data)), delays)
         | Inl msg \<Rightarrow>
             if attempt < maxRetries
             then createEmbedding_from maxRetries retryDelay prov texts (attempt + 1)
                    (delays @ [retryDelay * attempt])
             else (Inl (finalError maxRetries msg), delays))
      else (Inl (EmbeddingError
                  (''Failed to create embedding after '' @ show_nat maxRetries @ '' attempts'')),
            delays))"
  by pat_completeness auto
termination
  by (relation "measure (\<lambda>(maxRetries, retryDelay, prov, texts, attempt, delays).
        maxRetries + 1 - attempt)") auto

declare createEmbedding_from.simps [simp del]

definition createEmbedding ::
  "nat \<Rightarrow> nat \<Rightarrow> provider \<Rightarrow> string list \<Rightarrow> (rag_error + vector list) \<times> nat list" where
  "createEmbedding maxRetries retryDelay prov texts =
     createEmbedding_from maxRetries retryDelay prov texts 1 []"

text \<open>\<open>text.trim()\<close> as a condition: the trimmed text is not empty.\<close>

definition valid_text :: "string \<Rightarrow> bool" where
  "valid_text t = (trim t \<noteq> [])"

definition embedTexts ::
  "nat \<Rightarrow> nat \<Rightarrow> provider \<Rightarrow> string list \<Rightarrow> (rag_error + vector list) \<times> nat list" where
  "embedTexts maxRetries retryDelay prov texts =
     (if texts = [] then (Inr [], [])
      else
        let validTexts = filter valid_text texts in
        if validTexts = [] then (Inl (EmbeddingError ''No valid texts provided''), [])
        else
          (case createEmbedding maxRetries retryDelay prov validTexts of
             (Inr vs, delays) \<Rightarrow> (Inr vs, delays)
           | (Inl e, delays) \<Rightarrow>
               (Inl (EmbeddingError
                      (''Failed to generate embeddings for '' @ show_nat (length validTexts)
                         @ '' texts: '' @ error_string e)),
                delays)))"

text \<open>
  Sample providers for concrete runs: one that answers every call, embedding each text
  as the one-dimensional vector of its length; one whose every call fails with a quota
  message; one whose first call fails with a quota message and whose later calls answer;
  one whose every call fails with an authentication message.
\<close>

definition length_provider :: provider where
  "length_provider attempt texts =
     Inr (zip [0..<length texts] (map (\<lambda>t. [real (length t)]) texts))"

definition quota_provider :: provider where
  "quota_provider attempt texts = Inl ''You exceeded your current quota''"

definition quota_once_provider :: provider where
  "quota_once_provider attempt texts =
     (if attempt = 1 then Inl ''You exceeded your current quota''
      else length_provider attempt texts)"

definition unauthorized_provider :: provider where
  "unauthorized_provider attempt texts = Inl ''401 Incorrect API key provided''"


section \<open>Vector store (\<open>FileVectorStore\<close>)\<close>

record IndexEntry =
  ie_id :: string
  ie_embedding :: vector
  ie_metadata :: Metadata

text \<open>
  The state of the store is the content of its files: \<open>documents.json\<close>,
  \<open>vectors.json\<close> (the index, read by \<open>loadIndex\<close>) and the document count of
  \<open>metadata.json\<close>.
\<close>

record store =
  documents :: "VectorDocument list"
  vectors :: "IndexEntry list"
  totalDocuments :: nat

definition empty_store :: store where
  "empty_store = \<lparr>documents = [], vectors = [], totalDocuments = 0\<rparr>"

definition entry_of :: "VectorDocument \<Rightarrow> IndexEntry" where
  "entry_of doc = \<lparr>ie_id = doc_id doc, ie_embedding = embedding doc, ie_metadata = metadata doc\<rparr>"

text \<open>
  \<open>generateDocumentId\<close>.  The digest \<open>crypto.createHash('md5') ... digest('hex')\<close>
  belongs to the runtime and is the parameter \<open>md5\<close>.
\<close>

definition generateDocumentId ::
  "(string \<Rightarrow> string) \<Rightarrow> string \<Rightarrow> string \<Rightarrow> string \<Rightarrow> string" where
  "generateDocumentId md5 name type text =
     (let hash = md5 (name @ ''-'' @ type @ ''-'' @ text)
      in name @ ''-'' @ type @ ''-'' @ take 8 hash)"

text \<open>
  A digest with the output format of md5 (32 hexadecimal digits), to run the functions
  that take the digest as a parameter on concrete inputs.
\<close>

definition sample_digest :: "string \<Rightarrow> string" where
  "sample_digest s = ''9e107d9d372bb6826bd81d3542a419d6''"

text \<open>
  A file operation can fail.  Each store operation that the source wraps in
  \<open>try\<close>/\<open>catch\<close> takes a flag \<open>io_ok\<close>: when it is false the operation throws its
  \<open>VectorStoreError\<close> and the files are as before.
\<close>

definition addDocuments :: "bool \<Rightarrow> store \<Rightarrow> VectorDocument list \<Rightarrow> rag_error + store" where
  "addDocuments io_ok st docs =
     (if \<not> io_ok then Inl (VectorStoreError ''Failed to add documents'')
      else
        let existingIds = map doc_id (documents st);
            newDocs = filter (\<lambda>doc. doc_id doc \<notin> set existingIds) docs
        in if newDocs = [] then Inr st
           else
             let allDocs = documents st @ newDocs
             in Inr \<lparr>documents = allDocs,
                     vectors = vectors st @ map entry_of newDocs,
                     totalDocuments = length allDocs\<rparr>)"

definition deleteDocuments :: "bool \<Rightarrow> store \<Rightarrow> string list \<Rightarrow> rag_error + store" where
  "deleteDocuments io_ok st ids =
     (if \<not> io_ok then Inl (VectorStoreError ''Failed to delete documents'')
      else
        let remainingDocs = filter (\<lambda>doc. doc_id doc \<notin> set ids) (documents st);
            remainingIndex = filter (\<lambda>item. ie_id item \<notin> set ids) (vectors st)
        in Inr \<lparr>documents = remainingDocs, vectors = remainingIndex,
                totalDocuments = length remainingDocs\<rparr>)"

definition clear :: "bool \<Rightarrow> store \<Rightarrow> rag_error + store" where
  "clear io_ok st =
     (if \<not> io_ok then Inl (VectorStoreError ''Failed to clear vector store'')
      else Inr \<lparr>documents = [], vectors = [], totalDocuments = 0\<rparr>)"

text \<open>
  \<open>cosineSimilarity\<close> of the store: \<open>None\<close> is the thrown
  \<open>Vector dimensions must match\<close>.  \<open>cosine\<close> is the value computed when the lengths
  agree.
\<close>

definition dotProduct :: "vector \<Rightarrow> vector \<Rightarrow> real" where
  "dotProduct a b = sum_list (map (\<lambda>(x, y). x * y) (zip a b))"

definition cosine :: "vector \<Rightarrow> vector \<Rightarrow> real" where
  "cosine vecA vecB =
     (let magnitude = sqrt (dotProduct vecA vecA) * sqrt (dotProduct vecB vecB)
      in if magnitude = 0 then 0 else dotProduct vecA vecB / magnitude)"

definition cosineSimilarity :: "vector \<Rightarrow> vector \<Rightarrow> real option" where
  "cosineSimilarity vecA vecB =
     (if length vecA \<noteq> length vecB then None else Some (cosine vecA vecB))"

text \<open>
  \<open>cosine\<close> above is the value in exact arithmetic.  The source computes on IEEE
  doubles, where the result of each operation is the exact result rounded.  Finite
  doubles are real numbers; \<open>rnd\<close> is the rounding of the arithmetic, and the
  functions below round after each operation, in the order of the source: the loop
  that adds up the products, the two square roots, their product, the quotient.
  \<open>exact\<close> is the arithmetic without rounding.
\<close>

definition exact :: "real \<Rightarrow> real" where
  "exact x = x"

text \<open>\<open>for (...) { sum += vecA[i] * vecB[i] }\<close> over the paired components.\<close>

fun accumulate :: "(real \<Rightarrow> real) \<Rightarrow> real \<Rightarrow> (real \<times> real) list \<Rightarrow> real" where
  "accumulate rnd acc [] = acc"
| "accumulate rnd acc ((x, y) # ps) = accumulate rnd (rnd (acc + rnd (x * y))) ps"

definition cosineFl :: "(real \<Rightarrow> real) \<Rightarrow> vector \<Rightarrow> vector \<Rightarrow> real" where
  "cosineFl rnd vecA vecB =
     (let dot = accumulate rnd 0 (zip vecA vecB);
          normA = accumulate rnd 0 (zip vecA vecA);
          normB = accumulate rnd 0 (zip vecB vecB);
          magnitude = rnd (rnd (sqrt normA) * rnd (sqrt normB))
      in if magnitude = 0 then 0 else rnd (dot / magnitude))"

definition cosineSimilarityFl :: "(real \<Rightarrow> real) \<Rightarrow> vector \<Rightarrow> vector \<Rightarrow> real option" where
  "cosineSimilarityFl rnd vecA vecB =
     (if length vecA \<noteq> length vecB then None else Some (cosineFl rnd vecA vecB))"

text \<open>The similarities of all index entries; one mismatch of dimensions throws.\<close>

fun similarities ::
  "(real \<Rightarrow> real) \<Rightarrow> vector \<Rightarrow> IndexEntry list \<Rightarrow> (IndexEntry \<times> real) list option" where
  "similarities rnd q [] = Some []"
| "similarities rnd q (item # items) =
     (case cosineSimilarityFl rnd q (ie_embedding item) of
        None \<Rightarrow> None
      | Some s \<Rightarrow>
          (case similarities rnd q items of
             None \<Rightarrow> None
           | Some rest \<Rightarrow> Some ((item, s) # rest)))"

text \<open>
  \<open>new Map(documents.map(doc => [doc.id, doc]))\<close>: of two documents with one id the
  later one is kept.
\<close>

definition docMap :: "VectorDocument list \<Rightarrow> string \<Rightarrow> VectorDocument option" where
  "docMap docs = map_of (rev (map (\<lambda>doc. (doc_id doc, doc)) docs))"

text \<open>
  \<open>similaritySearch\<close>, on the similarities as the arithmetic \<open>rnd\<close> computes them.
  \<open>sort((a, b) => b.similarity - a.similarity)\<close> is a stable sort by descending
  similarity (the difference of two doubles has the sign of their exact difference);
  \<open>slice(0, topK)\<close> keeps the first \<open>topK\<close>.
\<close>

definition similaritySearch ::
  "(real \<Rightarrow> real) \<Rightarrow> store \<Rightarrow> vector \<Rightarrow> nat \<Rightarrow> real \<Rightarrow> rag_error + VectorDocument list" where
  "similaritySearch rnd st queryEmbedding topK threshold =
     (if vectors st = [] then Inr []
      else
        (case similarities rnd queryEmbedding (vectors st) of
           None \<Rightarrow>
             Inl (VectorStoreError
                   ''Failed to perform similarity search: Error: Vector dimensions must match'')
         | Some sims \<Rightarrow>
             let filtered =
                   take topK (sort_key (\<lambda>(item, s). - s) (filter (\<lambda>(item, s). s \<ge> threshold) sims))
             in Inr (List.map_filter (\<lambda>(item, s). docMap (documents st) (ie_id item)) filtered)))"








section \<open>Service (\<open>RAGService\<close>)\<close>

text \<open>
  \<open>createComponentVectors\<close> first collects the texts with their facet types (the
  parallel arrays \<open>texts\<close>, \<open>contentList\<close> and \<open>metadataList\<close> of the source, which
  hold the same positions).
\<close>

definition collectFacets :: "ComponentDoc \<Rightarrow> (string \<times> facet_type) list" where
  "collectFacets component =
     (if description component \<noteq> [] then [(description component, Description)] else [])
     @ (if api component \<noteq> [] \<and> api component \<noteq> ''API documentation not available''
        then [(api component, Api)] else [])
     @ map (\<lambda>example. (example, Example))
         (filter (\<lambda>example. trim example \<noteq> []) (examples component))"

definition facetMetadata :: "ComponentDoc \<Rightarrow> facet_type \<Rightarrow> Metadata" where
  "facetMetadata component ty =
     \<lparr>md_componentName = componentName component,
      md_packageName = packageName component,
      md_type = ty,
      md_tags = tags component,
      md_version = version component\<rparr>"

text \<open>The type string handed to \<open>generateDocumentId\<close> for the document at \<open>i\<close>.\<close>

definition idType :: "facet_type \<Rightarrow> nat \<Rightarrow> string" where
  "idType ty i = (if ty = Example then ''example-'' @ show_nat i else facet_name ty)"

text \<open>
  \<open>embedTextsFn\<close> is \<open>this.embeddings.embedTexts\<close>.  \<open>embeddings.map((embedding, index) => ...)\<close>
  reads \<open>metadataList[index].type\<close>: with more embeddings than collected texts this
  throws a TypeError, caught and rethrown like an embedding failure.
\<close>

definition createComponentVectors ::
  "(string \<Rightarrow> string) \<Rightarrow> (string list \<Rightarrow> rag_error + vector list) \<Rightarrow> ComponentDoc
     \<Rightarrow> rag_error + VectorDocument list" where
  "createComponentVectors md5 embedTextsFn component =
     (let facets = collectFacets component; texts = map fst facets in
      if texts = [] then Inr []
      else
        (case embedTextsFn texts of
           Inl e \<Rightarrow>
             Inl (RAGError ''VECTOR_CREATION_ERROR''
                   (''Failed to create vectors for '' @ componentName component @ '': ''
                      @ error_string e))
         | Inr embeddings \<Rightarrow>
             if length embeddings > length facets
             then Inl (RAGError ''VECTOR_CREATION_ERROR''
                        (''Failed to create vectors for '' @ componentName component
                           @ '': TypeError: Cannot read properties of undefined (reading 'type')''))
             else
               Inr (map (\<lambda>(i, e).
                          \<lparr>doc_id = generateDocumentId md5 (componentName component)
                                      (idType (snd (facets ! i)) i) (fst (facets ! i)),
                           content = fst (facets ! i),
                           embedding = e,
                           metadata = facetMetadata component (snd (facets ! i))\<rparr>)
                        (zip [0..<length embeddings] embeddings))))"

text \<open>\<open>calculateRelevanceScore\<close>\<close>

definition calculateRelevanceScore :: "VectorDocument \<Rightarrow> string \<Rightarrow> real" where
  "calculateRelevanceScore doc query =
     (let score = 0.8;
          score = (if md_type (metadata doc) = Description then score * 1.2
                   else if md_type (metadata doc) = Api then score * 1.0
                   else if md_type (metadata doc) = Example then score * 0.8
                   else score);
          queryLower = toLowerCase query;
          contentLower = toLowerCase (content doc);
          score = (if includes_str contentLower queryLower then score * 1.3 else score)
      in min score 1.0)"

text \<open>
  The relevance score as the specification words it: the similarity of the hit as base
  score, the weight of the facet type, the keyword factor, clamped to 1.
\<close>

definition specRelevanceScore :: "real \<Rightarrow> VectorDocument \<Rightarrow> string \<Rightarrow> real" where
  "specRelevanceScore similarity doc query =
     min (similarity
          * (case md_type (metadata doc) of
               Description \<Rightarrow> 1.2 | Api \<Rightarrow> 1.0 | Example \<Rightarrow> 0.8 | Usage \<Rightarrow> 1)
          * (if includes_str (toLowerCase (content doc)) (toLowerCase query) then 1.3 else 1))
         1.0"

subsection \<open>Sync\<close>

record ComponentSyncRequest =
  sourcePath :: string
  forceReindex :: bool
  packages :: "string list option"

datatype sync_status = SyncSuccess | SyncPartial | SyncFailed

record ComponentSyncResponse =
  sync_status :: sync_status
  processedCount :: int
  successCount :: int
  failedCount :: int
  errors :: "string list"

text \<open>
  The outcome of one component of a batch: \<open>{success: true, vectors}\<close> or
  \<open>{success: false, error}\<close>.  \<open>parsedComp.error || 'Parse failed'\<close> takes the
  default for a missing or empty message.
\<close>

datatype batch_result = Vectors "VectorDocument list" | Failure string

definition processComponent ::
  "(ComponentDoc \<Rightarrow> rag_error + VectorDocument list) \<Rightarrow> ParsedComponent \<Rightarrow> batch_result" where
  "processComponent mkVectors parsedComp =
     (if status parsedComp = Success then
        (case mkVectors (info parsedComp) of
           Inr vs \<Rightarrow> Vectors vs
         | Inl e \<Rightarrow> Failure (componentName (info parsedComp) @ '': '' @ error_string e))
      else
        Failure (componentName (info parsedComp) @ '': ''
                 @ (case error parsedComp of
                      None \<Rightarrow> ''Parse failed''
                    | Some m \<Rightarrow> if m = [] then ''Parse failed'' else m)))"

text \<open>
  The loop over the results of a batch: vectors collected, \<open>successCount\<close>
  (here \<open>succeeded\<close>) incremented, or the error pushed when it is a non-empty string.
\<close>

fun collectResults ::
  "batch_result list \<Rightarrow> VectorDocument list \<times> int \<times> string list
     \<Rightarrow> VectorDocument list \<times> int \<times> string list" where
  "collectResults [] acc = acc"
| "collectResults (Vectors vs # rs) (vectorDocuments, succeeded, errs) =
     collectResults rs (vectorDocuments @ vs, succeeded + 1, errs)"
| "collectResults (Failure e # rs) (vectorDocuments, succeeded, errs) =
     collectResults rs (vectorDocuments, succeeded, if e \<noteq> [] then errs @ [e] else errs)"

text \<open>\<open>componentsToSync.slice(i, i + BATCH_SIZE)\<close> for \<open>i = 0, 10, 20, ...\<close>\<close>

definition BATCH_SIZE :: nat where
  "BATCH_SIZE = 10"

function batches :: "'a list \<Rightarrow> 'a list list" where
  "batches xs = (if xs = [] then [] else take BATCH_SIZE xs # batches (drop BATCH_SIZE xs))"
  by pat_completeness auto
termination
  by (relation "measure length") (auto simp: BATCH_SIZE_def)

declare batches.simps [simp del]

text \<open>
  The batches in turn, from batch number \<open>batchIndex\<close>.  \<open>add_ok b\<close> tells whether the
  file operations of \<open>addDocuments\<close> for batch \<open>b\<close> succeed.  The result carries the
  counters and the store reached, and the error thrown, if any.
\<close>

fun runBatches ::
  "(ComponentDoc \<Rightarrow> rag_error + VectorDocument list) \<Rightarrow> (nat \<Rightarrow> bool) \<Rightarrow> nat
     \<Rightarrow> ParsedComponent list list \<Rightarrow> int \<times> string list \<times> store
     \<Rightarrow> (int \<times> string list \<times> store) \<times> rag_error option" where
  "runBatches mkVectors add_ok batchIndex [] acc = (acc, None)"
| "runBatches mkVectors add_ok batchIndex (batch # rest) (succeeded, errs, st) =
     (let batchResults = map (processComponent mkVectors) batch;
          (vectorDocuments, succeeded', errs') =
             collectResults batchResults ([], succeeded, errs)
      in if vectorDocuments \<noteq> [] then
           (case addDocuments (add_ok batchIndex) st vectorDocuments of
              Inl e \<Rightarrow> ((succeeded', errs', st), Some e)
            | Inr st' \<Rightarrow>
                runBatches mkVectors add_ok (batchIndex + 1) rest (succeeded', errs', st'))
         else runBatches mkVectors add_ok (batchIndex + 1) rest (succeeded', errs', st))"

text \<open>
  What a sync meets outside the service: the outcome of \<open>parseAllComponents\<close>, and
  whether the file operations of \<open>clear\<close> and of each \<open>addDocuments\<close> succeed.
\<close>

record sync_env =
  parsed :: "rag_error + ParsedComponent list"
  clear_ok :: bool
  add_ok :: "nat \<Rightarrow> bool"

text \<open>The response built in the \<open>catch\<close> of \<open>syncComponents\<close>.\<close>

definition caughtResponse :: "int \<Rightarrow> int \<Rightarrow> string list \<Rightarrow> rag_error \<Rightarrow> ComponentSyncResponse" where
  "caughtResponse processed succeeded errs e =
     \<lparr>sync_status = SyncFailed,
      processedCount = processed,
      successCount = succeeded,
      failedCount = processed - succeeded,
      errors = errs @ [''Sync error: '' @ error_string e]\<rparr>"

text \<open>
  \<open>syncComponents\<close>; the duration and the log lines are left out.  \<open>request.packages\<close>
  as a condition is true for every array, the empty one too.
\<close>

definition syncComponents ::
  "(ComponentDoc \<Rightarrow> rag_error + VectorDocument list) \<Rightarrow> sync_env \<Rightarrow> store
     \<Rightarrow> ComponentSyncRequest \<Rightarrow> ComponentSyncResponse \<times> store" where
  "syncComponents mkVectors env st request =
     (case parsed env of
        Inl e \<Rightarrow> (caughtResponse 0 0 [] e, st)
      | Inr parsedComponents \<Rightarrow>
          let processed = int (length parsedComponents);
              componentsToSync =
                (case packages request of
                   Some ps \<Rightarrow> filter (\<lambda>comp. packageName (info comp) \<in> set ps) parsedComponents
                 | None \<Rightarrow> parsedComponents)
          in
          (case (if forceReindex request then clear (clear_ok env) st else Inr st) of
             Inl e \<Rightarrow> (caughtResponse processed 0 [] e, st)
           | Inr st1 \<Rightarrow>
               (case runBatches mkVectors (add_ok env) 0 (batches componentsToSync) (0, [], st1) of
                  ((succeeded, errs, st2), Some e) \<Rightarrow>
                    (caughtResponse processed succeeded errs e, st2)
                | ((succeeded, errs, st2), None) \<Rightarrow>
                    (\<lparr>sync_status =
                        (if errs = [] then SyncSuccess
                         else if succeeded > 0 then SyncPartial else SyncFailed),
                      processedCount = processed,
                      successCount = succeeded,
                      failedCount = processed - succeeded,
                      errors = errs\<rparr>, st2))))"


section \<open>Smart cache (\<open>SmartCache\<close>)\<close>

text \<open>
  The two maps of the cache hold references to shared entry objects: \<open>heap\<close> maps an
  address to the entry stored there, and both maps hold addresses.  A JavaScript
  \<open>Map\<close> keeps its keys in insertion order: it is a list of pairs with distinct keys;
  \<open>set\<close> on a present key keeps its position, \<open>set\<close> on a new key appends.
\<close>

record 'v CacheEntry =
  ce_value :: 'v
  ce_timestamp :: int
  ce_hits :: nat
  ce_embedding :: "vector option"

record CacheCounters =
  hits :: nat
  misses :: nat
  totalResponseTime :: int
  queries :: nat

record 'v SmartCache =
  heap :: "nat \<Rightarrow> 'v CacheEntry option"
  next_address :: nat
  cache :: "(string \<times> nat) list"
  semanticCache :: "(string \<times> nat) list"
  maxSize :: nat
  maxAge :: int
  similarityThreshold :: real
  stats :: CacheCounters

definition map_delete :: "'k \<Rightarrow> ('k \<times> 'a) list \<Rightarrow> ('k \<times> 'a) list" where
  "map_delete k m = filter (\<lambda>(k', v). k' \<noteq> k) m"

definition map_set :: "'k \<Rightarrow> 'a \<Rightarrow> ('k \<times> 'a) list \<Rightarrow> ('k \<times> 'a) list" where
  "map_set k v m =
     (if k \<in> set (map fst m) then map (\<lambda>(k', v'). if k' = k then (k', v) else (k', v')) m
      else m @ [(k, v)])"

text \<open>The constructor.\<close>

definition newSmartCache :: "nat \<Rightarrow> int \<Rightarrow> real \<Rightarrow> 'v SmartCache" where
  "newSmartCache capacity age threshold =
     \<lparr>heap = (\<lambda>a. None), next_address = 0, cache = [], semanticCache = [],
      maxSize = capacity, maxAge = age, similarityThreshold = threshold,
      stats = \<lparr>hits = 0, misses = 0, totalResponseTime = 0, queries = 0\<rparr>\<rparr>"

text \<open>
  \<open>generateKey\<close>: the digest of the lower-cased, trimmed query followed by
  \<open>JSON.stringify(filters)\<close>; \<open>filters\<close> is that string, \<open>None\<close> without filters.
\<close>

definition generateKey :: "(string \<Rightarrow> string) \<Rightarrow> string \<Rightarrow> string option \<Rightarrow> string" where
  "generateKey md5 query filters =
     md5 (trim (toLowerCase query) @ (case filters of None \<Rightarrow> [] | Some json \<Rightarrow> json))"

text \<open>
  \<open>cosineSimilarity\<close> of the cache: 0 for different lengths and for a zero norm;
  written in exact arithmetic (no property below depends on its value).
\<close>

definition cacheCosineSimilarity :: "vector \<Rightarrow> vector \<Rightarrow> real" where
  "cacheCosineSimilarity a b =
     (if length a \<noteq> length b then 0
      else
        let normA = dotProduct a a; normB = dotProduct b b
        in if normA = 0 \<or> normB = 0 then 0
           else dotProduct a b / (sqrt normA * sqrt normB))"

text \<open>
  The scan of the semantic map in insertion order: the address of the first entry that
  has an embedding, is not expired and is similar enough.
\<close>

fun semanticMatch :: "'v SmartCache \<Rightarrow> vector \<Rightarrow> int \<Rightarrow> nat list \<Rightarrow> nat option" where
  "semanticMatch c emb now [] = None"
| "semanticMatch c emb now (a # as) =
     (case heap c a of
        None \<Rightarrow> semanticMatch c emb now as
      | Some entry \<Rightarrow>
          (case ce_embedding entry of
             None \<Rightarrow> semanticMatch c emb now as
           | Some stored \<Rightarrow>
               if now - ce_timestamp entry \<le> maxAge c
                  \<and> cacheCosineSimilarity emb stored \<ge> similarityThreshold c
               then Some a
               else semanticMatch c emb now as))"

definition countQuery :: "CacheCounters \<Rightarrow> CacheCounters" where
  "countQuery s = s\<lparr>queries := queries s + 1\<rparr>"

definition countHit :: "int \<Rightarrow> CacheCounters \<Rightarrow> CacheCounters" where
  "countHit elapsed s = s\<lparr>hits := hits s + 1, totalResponseTime := totalResponseTime s + elapsed\<rparr>"

definition countMiss :: "int \<Rightarrow> CacheCounters \<Rightarrow> CacheCounters" where
  "countMiss elapsed s =
     s\<lparr>misses := misses s + 1, totalResponseTime := totalResponseTime s + elapsed\<rparr>"

definition bumpHits :: "nat \<Rightarrow> 'v SmartCache \<Rightarrow> 'v SmartCache" where
  "bumpHits a c =
     (case heap c a of
        None \<Rightarrow> c
      | Some entry \<Rightarrow> c\<lparr>heap := (heap c)(a := Some (entry\<lparr>ce_hits := ce_hits entry + 1\<rparr>))\<rparr>)"

text \<open>
  Step 2 of \<open>get\<close> and the miss after it.  \<open>startTime\<close> is the clock at entry,
  \<open>now\<close> the clock of the later readings.
\<close>

definition getSemantic ::
  "'v SmartCache \<Rightarrow> vector option \<Rightarrow> int \<Rightarrow> int \<Rightarrow> 'v option \<times> 'v SmartCache" where
  "getSemantic c emb startTime now =
     (case (case emb of
              None \<Rightarrow> None
            | Some e \<Rightarrow> if length e > 0 then semanticMatch c e now (map snd (semanticCache c))
                        else None) of
        Some a \<Rightarrow>
          (map_option ce_value (heap c a),
           (bumpHits a c)\<lparr>stats := countHit (now - startTime) (stats c)\<rparr>)
      | None \<Rightarrow> (None, c\<lparr>stats := countMiss (now - startTime) (stats c)\<rparr>))"

text \<open>\<open>get\<close>\<close>

definition cache_get ::
  "(string \<Rightarrow> string) \<Rightarrow> 'v SmartCache \<Rightarrow> string \<Rightarrow> vector option \<Rightarrow> string option \<Rightarrow> int \<Rightarrow> int
     \<Rightarrow> 'v option \<times> 'v SmartCache" where
  "cache_get md5 c0 query emb filters startTime now =
     (let c = c0\<lparr>stats := countQuery (stats c0)\<rparr>;
          key = generateKey md5 query filters
      in case map_of (cache c) key of
           None \<Rightarrow> getSemantic c emb startTime now
         | Some a \<Rightarrow>
             (case heap c a of
                None \<Rightarrow> getSemantic c emb startTime now
              | Some exactMatch \<Rightarrow>
                  if now - ce_timestamp exactMatch \<le> maxAge c
                  then (Some (ce_value exactMatch),
                        (bumpHits a c)
                          \<lparr>stats := countHit (now - startTime) (stats c),
                           cache := map_set key a (map_delete key (cache c))\<rparr>)
                  else getSemantic (c\<lparr>cache := map_delete key (cache c)\<rparr>) emb startTime now))"

text \<open>\<open>set\<close>; \<open>if (firstEntry)\<close> holds for a non-empty key.\<close>

definition cache_set ::
  "(string \<Rightarrow> string) \<Rightarrow> 'v SmartCache \<Rightarrow> string \<Rightarrow> 'v \<Rightarrow> vector option \<Rightarrow> string option \<Rightarrow> int
     \<Rightarrow> 'v SmartCache" where
  "cache_set md5 c0 query v emb filters now =
     (let key = generateKey md5 query filters;
          c1 = (if length (cache c0) \<ge> maxSize c0 then
                  (case cache c0 of
                     [] \<Rightarrow> c0
                   | (firstEntry, a0) # rest \<Rightarrow>
                       if firstEntry \<noteq> []
                       then c0\<lparr>cache := map_delete firstEntry (cache c0),
                               semanticCache := map_delete firstEntry (semanticCache c0)\<rparr>
                       else c0)
                else c0);
          a = next_address c1;
          entry = \<lparr>ce_value = v, ce_timestamp = now, ce_hits = 0, ce_embedding = emb\<rparr>;
          c2 = c1\<lparr>heap := (heap c1)(a := Some entry), next_address := a + 1,
                  cache := map_set key a (cache c1)\<rparr>
      in case emb of
           None \<Rightarrow> c2
         | Some e \<Rightarrow> if length e > 0
                     then c2\<lparr>semanticCache := map_set key a (semanticCache c2)\<rparr>
                     else c2)"

text \<open>\<open>clear\<close>\<close>

definition cache_clear :: "'v SmartCache \<Rightarrow> 'v SmartCache" where
  "cache_clear c = c\<lparr>cache := [], semanticCache := []\<rparr>"

record CacheStats =
  cs_size :: nat
  cs_hits :: nat
  cs_misses :: nat
  hitRate :: real
  avgResponseTime :: real
  oldestEntry :: int
  totalQueries :: nat

text \<open>\<open>getStats\<close> of the cache.\<close>

definition cache_getStats :: "'v SmartCache \<Rightarrow> int \<Rightarrow> CacheStats" where
  "cache_getStats c now =
     (let entries = List.map_filter (\<lambda>(k, a). heap c a) (cache c);
          oldestTimestamp =
            (case map ce_timestamp entries of [] \<Rightarrow> now | t # ts \<Rightarrow> fold min ts t)
      in \<lparr>cs_size = length (cache c),
          cs_hits = hits (stats c),
          cs_misses = misses (stats c),
          hitRate = (if queries (stats c) > 0
                     then real (hits (stats c)) / real (queries (stats c)) else 0),
          avgResponseTime = (if queries (stats c) > 0
                             then real_of_int (totalResponseTime (stats c)) / real (queries (stats c))
                             else 0),
          oldestEntry = oldestTimestamp,
          totalQueries = queries (stats c)\<rparr>)"

text \<open>Sequences of cache operations, each with its arguments and clock readings.\<close>

datatype 'v cache_op =
    Get string "vector option" "string option" int int
  | Set string 'v "vector option" "string option" int
  | Clear

fun apply_cache_op :: "(string \<Rightarrow> string) \<Rightarrow> 'v SmartCache \<Rightarrow> 'v cache_op \<Rightarrow> 'v SmartCache" where
  "apply_cache_op md5 c (Get query emb filters startTime now) =
     snd (cache_get md5 c query emb filters startTime now)"
| "apply_cache_op md5 c (Set query v emb filters now) = cache_set md5 c query v emb filters now"
| "apply_cache_op md5 c Clear = cache_clear c"

definition run_cache_ops :: "(string \<Rightarrow> string) \<Rightarrow> 'v SmartCache \<Rightarrow> 'v cache_op list \<Rightarrow> 'v SmartCache" where
  "run_cache_ops md5 c ops = foldl (apply_cache_op md5) c ops"


section \<open>Sample data\<close>

text \<open>A hit of type \<open>api\<close> whose content does not contain the word \<open>modal\<close>.\<close>

definition sample_hit :: VectorDocument where
  "sample_hit =
     \<lparr>doc_id = ''Button-api-9e107d9d'', content = ''| type | primary or default |'',
      embedding = [1, 0],
      metadata = \<lparr>md_componentName = ''Button'', md_packageName = ''@private/basic-components'',
                  md_type = Api, md_tags = [''ui''], md_version = ''1.0.0''\<rparr>\<rparr>"

text \<open>The description document of a component \<open>Button\<close> of package \<open>pkg\<close>.\<close>

definition button_doc :: "string \<Rightarrow> VectorDocument" where
  "button_doc pkg =
     \<lparr>doc_id = ''Button-description-9e107d9d'', content = ''Button component'',
      embedding = [1, 0],
      metadata = \<lparr>md_componentName = ''Button'', md_packageName = pkg,
                  md_type = Description, md_tags = [''ui''], md_version = ''1.0.0''\<rparr>\<rparr>"

definition one_package_store :: store where
  "one_package_store =
     \<lparr>documents = [button_doc ''@private/basic-components''],
      vectors = [entry_of (button_doc ''@private/basic-components'')],
      totalDocuments = 1\<rparr>"



text \<open>
  A cache run: an entry is stored, found again by the same query up to case and
  surrounding blanks, and found expired much later.
\<close>

definition sample_cache_ops :: "string cache_op list" where
  "sample_cache_ops =
     [Set ''button'' ''response for button'' None None 1000,
      Get ''Button '' None None 2000 2001,
      Get ''button'' None None 900000 900001]"

text \<open>The invariant of the cumulative counters of the cache.\<close>

definition counters_ok :: "CacheCounters \<Rightarrow> bool" where
  "counters_ok s = (queries s = hits s + misses s)"


text \<open>
  The document id as the specification words it: the facet type is the type of the
  metadata, and the digest is taken of name, type and content.
\<close>

definition specDocumentId :: "(string \<Rightarrow> string) \<Rightarrow> string \<Rightarrow> facet_type \<Rightarrow> string \<Rightarrow> string" where
  "specDocumentId md5 name ty text =
     name @ ''-'' @ facet_name ty @ ''-'' @ take 8 (md5 (name @ facet_name ty @ text))"

text \<open>
  A parsed component \<open>Button\<close> whose documentation file cannot be read, with one
  example; the embedder of three attempts over the provider that always answers; the
  vector documents the service makes of them.
\<close>

definition sample_files :: ComponentFiles where
  "sample_files =
     \<lparr>accessible = True, markdown = None,
      apiSection = ''API documentation not available'',
      demoExamples = [''<Button />''],
      importedComponents = []\<rparr>"

definition sample_component :: ComponentDoc where
  "sample_component =
     \<lparr>packageName = ''@private/basic-components'',
      componentName = ''Button'',
      description = ''Button component'',
      api = ''API documentation not available'',
      examples = [''<Button />''],
      tags = [''form'', ''action'', ''ui'', ''interactive'', ''react'', ''component''],
      version = ''5.10.0'',
      dependencies = [],
      updatedAt = ''2025-01-01T00:00:00.000Z''\<rparr>"

definition sample_parsed :: ParsedComponent where
  "sample_parsed =
     \<lparr>info = sample_component, filePath = ''/repo/components/button'',
      status = Success, error = None\<rparr>"

definition sample_embedder :: "string list \<Rightarrow> rag_error + vector list" where
  "sample_embedder texts = fst (embedTexts 3 1000 length_provider texts)"

definition sample_vectors :: "VectorDocument list" where
  "sample_vectors =
     [\<lparr>doc_id = ''Button-description-9e107d9d'', content = ''Button component'',
       embedding = [16],
       metadata = \<lparr>md_componentName = ''Button'', md_packageName = ''@private/basic-components'',
                   md_type = Description,
                   md_tags = [''form'', ''action'', ''ui'', ''interactive'', ''react'', ''component''],
                   md_version = ''5.10.0''\<rparr>\<rparr>,
      \<lparr>doc_id = ''Button-example-1-9e107d9d'', content = ''<Button />'',
       embedding = [10],
       metadata = \<lparr>md_componentName = ''Button'', md_packageName = ''@private/basic-components'',
                   md_type = Example,
                   md_tags = [''form'', ''action'', ''ui'', ''interactive'', ''react'', ''component''],
                   md_version = ''5.10.0''\<rparr>\<rparr>]"


text \<open>
  The invariant of the stored records: the index mirrors the documents, and no two
  documents share an id.
\<close>

definition store_ok :: "store \<Rightarrow> bool" where
  "store_ok st =
     (vectors st = map entry_of (documents st) \<and> distinct (map doc_id (documents st)))"



text \<open>
  Syncs: a component that failed to parse beside the sample component; a components
  directory that cannot be listed; a request without filter and one that asks for
  another package.
\<close>

definition broken_parsed :: ParsedComponent where
  "broken_parsed =
     \<lparr>info = createEmptyComponentDoc ''@private/basic-components'' ''2025-01-01T00:00:00.000Z''
              ''modal'',
      filePath = ''/repo/components/modal'',
      status = Error,
      error = Some ''Failed to parse component modal: Error: ENOENT: no such file or directory''\<rparr>"

definition sample_sync_env :: sync_env where
  "sample_sync_env =
     \<lparr>parsed = Inr [sample_parsed, broken_parsed], clear_ok = True, add_ok = (\<lambda>b. True)\<rparr>"

definition unreadable_env :: sync_env where
  "unreadable_env =
     \<lparr>parsed = Inl (ComponentParseError ''Failed to parse components: Error: ENOENT''),
      clear_ok = True, add_ok = (\<lambda>b. True)\<rparr>"

definition sample_request :: ComponentSyncRequest where
  "sample_request = \<lparr>sourcePath = ''/repo'', forceReindex = False, packages = None\<rparr>"

definition other_package_request :: ComponentSyncRequest where
  "other_package_request =
     \<lparr>sourcePath = ''/repo'', forceReindex = False,
      packages = Some [''@ant-design/pro-components'']\<rparr>"





section \<open>Properties\<close>

subsection \<open>Strings and paths\<close>

lemma basename_path_join:
  assumes "name \<noteq> []" and "CHR ''/'' \<notin> set name"
  shows "basename (path_join dir name) = name"
proof -
  have ne: "rev name \<noteq> []" using assms(1) by simp
  have hd_ok: "hd (rev name) \<noteq> CHR ''/''"
    using assms by (metis hd_in_set ne set_rev)
  have drop: "dropWhile (\<lambda>c. c = CHR ''/'') (rev name @ ''/'' @ rev dir) = rev name @ ''/'' @ rev dir"
    using ne hd_ok by (cases "rev name") auto
  have "takeWhile (\<lambda>c. c \<noteq> CHR ''/'') (rev name @ ''/'' @ rev dir)
          = rev name @ takeWhile (\<lambda>c. c \<noteq> CHR ''/'') (''/'' @ rev dir)"
    by (rule takeWhile_append2) (use assms(2) in auto)
  then have take: "takeWhile (\<lambda>c. c \<noteq> CHR ''/'') (rev name @ ''/'' @ rev dir) = rev name"
    by simp
  show ?thesis
    unfolding basename_def path_join_def using drop take by simp
qed

subsection \<open>Parser: tags\<close>

text \<open>
  C7 (as the code has it).  For a component directory \<open>dir/name\<close> whose lower-cased
  name is not an inherited object key, the extracted tags are the table's tags for the
  lower-cased name followed by \<open>react\<close>, \<open>component\<close>, and \<open>ui\<close>, \<open>react\<close>,
  \<open>component\<close> for a name the table does not have.  The names avatar, badge and tag
  give \<open>data-display\<close>, \<open>ui\<close>; menu, breadcrumb and tabs give \<open>navigation\<close>, \<open>ui\<close>;
  card gives \<open>data-display\<close>, \<open>container\<close>, \<open>ui\<close> and dropdown gives \<open>navigation\<close>,
  \<open>overlay\<close>, \<open>ui\<close>.
\<close>

theorem extractTags_table:
  assumes "name \<noteq> []" and "CHR ''/'' \<notin> set name"
    and "toLowerCase name \<notin> set inheritedKeys"
  shows "extractTags (path_join dir name) =
           Inr ((case map_of tagMapping (toLowerCase name) of
                   Some extra \<Rightarrow> extra | None \<Rightarrow> [''ui'']) @ [''react'', ''component''])
    \<and> (toLowerCase name \<in> set [''avatar'', ''badge'', ''tag''] \<longrightarrow>
           extractTags (path_join dir name) = Inr [''data-display'', ''ui'', ''react'', ''component''])
    \<and> (toLowerCase name \<in> set [''menu'', ''breadcrumb'', ''tabs''] \<longrightarrow>
           extractTags (path_join dir name) = Inr [''navigation'', ''ui'', ''react'', ''component''])
    \<and> (toLowerCase name = ''card'' \<longrightarrow>
           extractTags (path_join dir name) =
             Inr [''data-display'', ''container'', ''ui'', ''react'', ''component''])
    \<and> (toLowerCase name = ''dropdown'' \<longrightarrow>
           extractTags (path_join dir name) =
             Inr [''navigation'', ''overlay'', ''ui'', ''react'', ''component''])"
proof -
  have b: "basename (path_join dir name) = name"
    using assms(1,2) by (rule basename_path_join)
  have g: "extractTags (path_join dir name) =
           Inr ((case map_of tagMapping (toLowerCase name) of
                   Some extra \<Rightarrow> extra | None \<Rightarrow> [''ui'']) @ [''react'', ''component''])"
    using assms(3) by (simp add: extractTags_def b split: option.split)
  show ?thesis
    unfolding g by (auto simp: tagMapping_def)
qed

theorem extractTags_table_witness:
  "extractTags (path_join ''src/components'' ''Card'') =
     Inr [''data-display'', ''container'', ''ui'', ''react'', ''component'']
   \<and> extractTags (path_join ''src/components'' ''Badge'') =
     Inr [''data-display'', ''ui'', ''react'', ''component'']
   \<and> extractTags (path_join ''src/components'' ''date-picker'') =
     Inr [''ui'', ''react'', ''component'']"
proof -
  have low: "toLowerCase ''Card'' = ''card''" "toLowerCase ''Badge'' = ''badge''"
    "toLowerCase ''date-picker'' = ''date-picker''"
    by (simp_all add: toLowerCase_def lower_char_def upper_letters_def lower_letters_def)
  have 1: "extractTags (path_join ''src/components'' ''Card'') =
     Inr [''data-display'', ''container'', ''ui'', ''react'', ''component'']"
    using extractTags_table [of "''Card''" "''src/components''"]
    by (simp add: low inheritedKeys_def tagMapping_def)
  have 2: "extractTags (path_join ''src/components'' ''Badge'') =
     Inr [''data-display'', ''ui'', ''react'', ''component'']"
    using extractTags_table [of "''Badge''" "''src/components''"]
    by (simp add: low inheritedKeys_def tagMapping_def)
  have 3: "extractTags (path_join ''src/components'' ''date-picker'') =
     Inr [''ui'', ''react'', ''component'']"
    using extractTags_table [of "''date-picker''" "''src/components''"]
    by (simp add: low inheritedKeys_def tagMapping_def)
  from 1 2 3 show ?thesis by blast
qed

text \<open>
  The claim as the specification words it fails at \<open>card\<close> (and at \<open>dropdown\<close>): the
  table gives card the extra tag \<open>container\<close>.
\<close>

theorem extractTags_card_counterexample:
  "extractTags (path_join ''src/components'' ''card'')
     \<noteq> Inr [''data-display'', ''ui'', ''react'', ''component'']"
  by (simp add: extractTags_def basename_def path_join_def toLowerCase_def lower_char_def
      upper_letters_def lower_letters_def tagMapping_def)

subsection \<open>Service: relevance score\<close>

lemmas lower_defs = toLowerCase_def lower_char_def upper_letters_def lower_letters_def

text \<open>
  C1.  The specification takes the similarity of the hit as base score.  The code
  starts from the constant 0.8 instead, which its own comment calls a placeholder for
  the vector similarity: for a hit of type \<open>api\<close> with similarity 1 whose content does
  not contain the query, the code scores 0.8 where the specification gives 1.
\<close>

theorem calculateRelevanceScore_placeholder:
  "cosineSimilarity [1, 0] (embedding sample_hit) = Some 1
   \<and> calculateRelevanceScore sample_hit ''modal'' = 4 / 5
   \<and> specRelevanceScore 1 sample_hit ''modal'' = 1"
proof -
  have a1: "cosineSimilarity [1, 0] (embedding sample_hit) = Some 1"
    by (simp add: sample_hit_def cosineSimilarity_def cosine_def dotProduct_def)
  have a2: "toLowerCase (content sample_hit) = ''| type | primary or default |''"
    by (simp add: sample_hit_def lower_defs)
  have a3: "toLowerCase ''modal'' = ''modal''"
    by (simp add: lower_defs)
  have a4: "\<not> includes_str ''| type | primary or default |'' ''modal''"
    by simp
  have ty: "md_type (metadata sample_hit) = Api"
    by (simp add: sample_hit_def)
  have a5: "calculateRelevanceScore sample_hit ''modal'' = 4 / 5"
    unfolding calculateRelevanceScore_def Let_def a2 a3 ty using a4 by simp
  have a6: "specRelevanceScore 1 sample_hit ''modal'' = 1"
    unfolding specRelevanceScore_def a2 a3 ty using a4 by simp
  from a1 a5 a6 show ?thesis by blast
qed

subsection \<open>Vector store: statistics\<close>






subsection \<open>Smart cache: counters\<close>

lemma bumpHits_stats [simp]: "stats (bumpHits a c) = stats c"
  by (simp add: bumpHits_def split: option.split)

lemma getSemantic_counts:
  "let s = stats c; s' = stats (snd (getSemantic c emb startTime now)) in
     queries s' = queries s \<and>
     ((hits s' = hits s + 1 \<and> misses s' = misses s) \<or> (hits s' = hits s \<and> misses s' = misses s + 1))"
  by (simp add: getSemantic_def Let_def countHit_def countMiss_def split: option.split)

lemma cache_get_counts:
  "let s = stats c; s' = stats (snd (cache_get md5 c query emb filters startTime now)) in
     queries s' = queries s + 1 \<and>
     ((hits s' = hits s + 1 \<and> misses s' = misses s) \<or> (hits s' = hits s \<and> misses s' = misses s + 1))"
  by (simp add: cache_get_def getSemantic_def Let_def countHit_def countMiss_def countQuery_def
      split: option.split)

lemma cache_set_stats [simp]: "stats (cache_set md5 c query v emb filters now) = stats c"
  by (simp add: cache_set_def Let_def split: option.split list.split)

lemma cache_clear_stats [simp]: "stats (cache_clear c) = stats c"
  by (simp add: cache_clear_def)

lemma apply_cache_op_ok:
  "counters_ok (stats c) \<Longrightarrow> counters_ok (stats (apply_cache_op md5 c op))"
proof (cases op)
  case (Get query emb filters startTime now)
  assume "counters_ok (stats c)"
  then show ?thesis
    using cache_get_counts [of c md5 query emb filters startTime now] Get
    by (auto simp: counters_ok_def Let_def)
qed (simp_all)

lemma run_cache_ops_ok:
  "counters_ok (stats c) \<Longrightarrow> counters_ok (stats (run_cache_ops md5 c ops))"
  unfolding run_cache_ops_def
  by (induction ops arbitrary: c) (simp_all add: apply_cache_op_ok)

text \<open>
  C9.  From a new cache, after any sequence of \<open>get\<close>, \<open>set\<close> and \<open>clear\<close>
  operations, the statistics satisfy \<open>totalQueries = hits + misses\<close>, and when
  \<open>totalQueries > 0\<close> the reported \<open>hitRate\<close> is \<open>hits / (hits + misses)\<close>.
  Lemma \<open>cache_get_counts\<close> above is the step: a \<open>get\<close> adds one to \<open>queries\<close> and
  to exactly one of \<open>hits\<close> and \<open>misses\<close>.
\<close>

theorem cache_counters:
  "let st = cache_getStats (run_cache_ops md5 (newSmartCache capacity age threshold) ops) t in
     totalQueries st = cs_hits st + cs_misses st
     \<and> (totalQueries st > 0 \<longrightarrow>
          hitRate st = real (cs_hits st) / (real (cs_hits st) + real (cs_misses st)))"
proof -
  let ?c = "run_cache_ops md5 (newSmartCache capacity age threshold) ops"
  have "counters_ok (stats (newSmartCache capacity age threshold))"
    by (simp add: counters_ok_def newSmartCache_def)
  then have "counters_ok (stats ?c)"
    by (rule run_cache_ops_ok)
  then have inv: "queries (stats ?c) = hits (stats ?c) + misses (stats ?c)"
    by (simp add: counters_ok_def)
  show ?thesis
    using inv by (simp add: cache_getStats_def Let_def)
qed

lemma sample_run:
  "stats (run_cache_ops sample_digest (newSmartCache 1000 300000 (23 / 25)) sample_cache_ops)
     = \<lparr>hits = 1, misses = 1, totalResponseTime = 2, queries = 2\<rparr>"
  by (simp add: run_cache_ops_def sample_cache_ops_def newSmartCache_def cache_set_def cache_get_def
      getSemantic_def generateKey_def sample_digest_def map_set_def map_delete_def bumpHits_def
      countQuery_def countHit_def countMiss_def Let_def)

theorem cache_counters_witness:
  "totalQueries (cache_getStats (run_cache_ops sample_digest (newSmartCache 1000 300000 (23 / 25)) sample_cache_ops) 900002) = 2
   \<and> hitRate (cache_getStats (run_cache_ops sample_digest (newSmartCache 1000 300000 (23 / 25)) sample_cache_ops) 900002) = 1 / 2"
  using cache_counters [of sample_digest 1000 300000 "23 / 25" sample_cache_ops 900002]
  by (simp add: Let_def cache_getStats_def sample_run)

subsection \<open>Embedder\<close>

lemma createEmbedding_from_success:
  assumes "attempt \<le> a" and "a \<le> maxRetries"
    and "prov a texts = Inr data"
    and "\<forall>j. attempt \<le> j \<and> j < a \<longrightarrow> isl (prov j texts)"
  shows "createEmbedding_from maxRetries retryDelay prov texts attempt delays
           = (Inr (map snd (sort_key fst data)),
              delays @ map (\<lambda>j. retryDelay * j) [attempt..<a])"
  using assms
proof (induction "a - attempt" arbitrary: attempt delays)
  case 0
  then have "attempt = a" by simp
  with 0 show ?case
    by (simp add: createEmbedding_from.simps [of _ _ _ _ a])
next
  case (Suc n)
  then have lt: "attempt < a" by simp
  then have fail: "isl (prov attempt texts)" using Suc.prems by simp
  then obtain msg where msg: "prov attempt texts = Inl msg"
    by (cases "prov attempt texts") auto
  have n: "n = a - (attempt + 1)" using Suc.hyps(2) by simp
  have IH: "createEmbedding_from maxRetries retryDelay prov texts (attempt + 1)
              (delays @ [retryDelay * attempt])
           = (Inr (map snd (sort_key fst data)),
              (delays @ [retryDelay * attempt]) @ map (\<lambda>j. retryDelay * j) [attempt + 1..<a])"
    using Suc.hyps(1) [OF n] Suc.prems lt by simp
  have up: "[attempt..<a] = attempt # [attempt + 1..<a]"
    using lt by (simp add: upt_conv_Cons)
  show ?case
    using lt Suc.prems(2) msg IH
    by (subst createEmbedding_from.simps) (simp add: up)
qed

lemma createEmbedding_from_all_fail:
  assumes "attempt \<le> maxRetries" and "1 \<le> attempt"
    and "\<forall>j. attempt \<le> j \<and> j \<le> maxRetries \<longrightarrow> prov j texts = Inl (msg j)"
  shows "createEmbedding_from maxRetries retryDelay prov texts attempt delays
           = (Inl (finalError maxRetries (msg maxRetries)),
              delays @ map (\<lambda>j. retryDelay * j) [attempt..<maxRetries])"
  using assms
proof (induction "maxRetries - attempt" arbitrary: attempt delays)
  case 0
  then have "attempt = maxRetries" by simp
  with 0 show ?case
    by (simp add: createEmbedding_from.simps [of _ _ _ _ maxRetries])
next
  case (Suc n)
  then have lt: "attempt < maxRetries" by simp
  have msg: "prov attempt texts = Inl (msg attempt)" using Suc.prems by simp
  have n: "n = maxRetries - (attempt + 1)" using Suc.hyps(2) by simp
  have IH: "createEmbedding_from maxRetries retryDelay prov texts (attempt + 1)
              (delays @ [retryDelay * attempt])
           = (Inl (finalError maxRetries (msg maxRetries)),
              (delays @ [retryDelay * attempt]) @ map (\<lambda>j. retryDelay * j) [attempt + 1..<maxRetries])"
    using Suc.hyps(1) [OF n] Suc.prems lt by simp
  have up: "[attempt..<maxRetries] = attempt # [attempt + 1..<maxRetries]"
    using lt by (simp add: upt_conv_Cons)
  show ?case
    using lt msg IH
    by (subst createEmbedding_from.simps) (simp add: up)
qed

text \<open>
  C3 (as the code has it).  A failed call is retried whatever its message, after a
  delay of \<open>retryDelay * attempt\<close>, as long as attempts remain: when all \<open>maxRetries\<close>
  calls fail, \<open>maxRetries - 1\<close> delays have been slept.  Only the message of the last
  failure is classified: a message containing \<open>quota\<close> gives the quota error,
  otherwise one containing \<open>401\<close> gives the authentication error, otherwise the
  error after \<open>maxRetries\<close> attempts.
\<close>

theorem createEmbedding_retries_every_error:
  assumes "1 \<le> maxRetries"
    and "\<forall>j. 1 \<le> j \<and> j \<le> maxRetries \<longrightarrow> prov j texts = Inl (msg j)"
  shows "snd (createEmbedding maxRetries retryDelay prov texts)
           = map (\<lambda>j. retryDelay * j) [1..<maxRetries]
       \<and> fst (createEmbedding maxRetries retryDelay prov texts)
           = Inl (if includes_str (msg maxRetries) ''quota''
                  then EmbeddingError ''OpenAI API quota exceeded. Please check your billing.''
                  else if includes_str (msg maxRetries) ''401''
                  then EmbeddingError ''OpenAI API authentication failed. Please check your API key.''
                  else EmbeddingError (''OpenAI API error after '' @ show_nat maxRetries
                                         @ '' attempts: '' @ msg maxRetries))"
proof -
  have "createEmbedding_from maxRetries retryDelay prov texts 1 []
           = (Inl (finalError maxRetries (msg maxRetries)),
              [] @ map (\<lambda>j. retryDelay * j) [1..<maxRetries])"
    using assms by (intro createEmbedding_from_all_fail) simp_all
  then show ?thesis
    by (simp add: createEmbedding_def finalError_def)
qed

theorem createEmbedding_retries_every_error_witness:
  "snd (createEmbedding 2 1000 unauthorized_provider [''button'']) = [1000]
   \<and> fst (createEmbedding 2 1000 unauthorized_provider [''button''])
       = Inl (EmbeddingError ''OpenAI API authentication failed. Please check your API key.'')"
proof -
  have q: "\<not> includes_str ''401 Incorrect API key provided'' ''quota''"
    by simp
  have a: "includes_str ''401 Incorrect API key provided'' ''401''"
    by simp
  show ?thesis
    using createEmbedding_retries_every_error
      [of 2 unauthorized_provider "[''button'']" "\<lambda>j. ''401 Incorrect API key provided''" 1000]
    by (simp only: q a if_True if_False) (simp add: unauthorized_provider_def numeral_2_eq_2)
qed

text \<open>
  A quota message does not stop the retries: with three attempts allowed, a provider
  that always answers with a quota message is called three times, and one that
  answers the second call gives its vectors, no error.
\<close>

theorem createEmbedding_quota_counterexample:
  "createEmbedding 3 1000 quota_provider [''button'']
     = (Inl (EmbeddingError ''OpenAI API quota exceeded. Please check your billing.''), [1000, 2000])
   \<and> createEmbedding 3 1000 quota_once_provider [''button''] = (Inr [[6]], [1000])"
proof -
  have q: "includes_str ''You exceeded your current quota'' ''quota''"
    by simp
  have "createEmbedding_from 3 1000 quota_provider [''button''] 1 []
          = (Inl (finalError 3 ((\<lambda>j. ''You exceeded your current quota'') 3)),
             [] @ map (\<lambda>j. 1000 * j) [1..<3])"
    by (rule createEmbedding_from_all_fail) (simp_all add: quota_provider_def)
  then have 1: "createEmbedding 3 1000 quota_provider [''button'']
     = (Inl (EmbeddingError ''OpenAI API quota exceeded. Please check your billing.''), [1000, 2000])"
    using q by (simp add: createEmbedding_def finalError_def numeral_3_eq_3)
  have "createEmbedding_from 3 1000 quota_once_provider [''button''] 1 []
          = (Inr (map snd (sort_key fst [(0, [6])])), [] @ map (\<lambda>j. 1000 * j) [1..<2])"
    using createEmbedding_from_success
      [of 1 2 3 quota_once_provider "[''button'']" "[(0, [6])]" 1000 "[]"]
    by (simp add: quota_once_provider_def length_provider_def)
  then have 2: "createEmbedding 3 1000 quota_once_provider [''button''] = (Inr [[6]], [1000])"
    by (simp add: createEmbedding_def numeral_2_eq_2)
  from 1 2 show ?thesis by blast
qed

lemma sort_key_fst_indices:
  assumes "mset (map fst data) = mset [0..<n]"
  shows "map fst (sort_key fst data) = [0..<n]"
proof -
  let ?ys = "map fst (sort_key fst data)"
  have srt: "sorted ?ys" by (rule sorted_sort_key)
  have "mset ?ys = mset (map fst data)" by simp
  then have ms: "mset ?ys = mset [0..<n]" using assms by simp
  have "sort [0..<n] = ?ys"
    using ms srt by (intro properties_for_sort) simp_all
  moreover have "sort [0..<n] = [0..<n]"
    by (simp add: sorted_sort_id)
  ultimately show ?thesis by simp
qed

lemma sorted_response_aligned:
  assumes "mset (map fst data) = mset [0..<n]"
  shows "length (map snd (sort_key fst data)) = n"
    and "i < n \<Longrightarrow> (i, map snd (sort_key fst data) ! i) \<in> set data"
proof -
  have idx: "map fst (sort_key fst data) = [0..<n]"
    using assms by (rule sort_key_fst_indices)
  then have len: "length (sort_key fst data) = n"
    by (metis length_map length_upt minus_nat.diff_0)
  then show "length (map snd (sort_key fst data)) = n" by simp
  assume i: "i < n"
  then have "fst (sort_key fst data ! i) = i"
    using idx len by (metis nth_map add_0 nth_upt)
  then have "(i, map snd (sort_key fst data) ! i) = sort_key fst data ! i"
    using i len by (simp add: prod_eq_iff)
  moreover have "sort_key fst data ! i \<in> set (sort_key fst data)"
    by (rule nth_mem) (use i len in simp)
  ultimately show "(i, map snd (sort_key fst data) ! i) \<in> set data"
    by simp
qed

text \<open>
  C2 (as the code has it).  Texts that are empty after \<open>trim\<close>, which removes the
  white space and line terminators of JavaScript, are dropped before the call.  When
  some text remains and the provider answers within the allowed attempts
  with one item per submitted text, \<open>embedTexts\<close> returns as many vectors as there are
  non-blank texts, the vector at position \<open>i\<close> being the one the provider indexed
  \<open>i\<close>, that is, the vector of the \<open>i\<close>-th non-blank text; the output is as long as
  the input when no text is blank.
\<close>

theorem embedTexts_order:
  assumes "1 \<le> a" and "a \<le> maxRetries"
    and "\<forall>j. 1 \<le> j \<and> j < a \<longrightarrow> isl (prov j (filter valid_text texts))"
    and "prov a (filter valid_text texts) = Inr data"
    and "mset (map fst data) = mset [0..<length (filter valid_text texts)]"
    and "filter valid_text texts \<noteq> []"
  shows "\<exists>out. fst (embedTexts maxRetries retryDelay prov texts) = Inr out
           \<and> length out = length (filter valid_text texts)
           \<and> (\<forall>i < length out. (i, out ! i) \<in> set data)
           \<and> ((\<forall>t \<in> set texts. valid_text t) \<longrightarrow> length out = length texts)"
proof -
  let ?vt = "filter valid_text texts"
  let ?out = "map snd (sort_key fst data)"
  have ne: "texts \<noteq> []" using assms(6) by auto
  have ce: "createEmbedding maxRetries retryDelay prov ?vt
              = (Inr ?out, [] @ map (\<lambda>j. retryDelay * j) [1..<a])"
    unfolding createEmbedding_def
    using assms(1-4) by (intro createEmbedding_from_success) simp_all
  have res: "fst (embedTexts maxRetries retryDelay prov texts) = Inr ?out"
    using ne assms(6) by (simp add: embedTexts_def Let_def ce)
  have len: "length ?out = length ?vt"
    using assms(5) by (rule sorted_response_aligned(1))
  have mem: "\<forall>i < length ?out. (i, ?out ! i) \<in> set data"
    using sorted_response_aligned(2) [OF assms(5)] len by simp
  have all: "(\<forall>t \<in> set texts. valid_text t) \<longrightarrow> length ?out = length texts"
    using len by (simp add: filter_id_conv)
  from res len mem all show ?thesis by blast
qed

lemma valid_text_samples:
  "valid_text ''button''" "valid_text ''menu''" "\<not> valid_text ''  ''"
  by (simp_all add: valid_text_def trim_def is_space_def)

text \<open>
  A text of no-break spaces, tabs and line ends is blank like a text of spaces: it is
  dropped, and alone it makes \<open>embedTexts\<close> throw before any call of the provider.
\<close>

lemma valid_text_blank:
  "\<not> valid_text []" "\<not> valid_text [CHR 0xA0]" "\<not> valid_text [CHR 0x09, CHR 0xA0, CHR 0x0A]"
  by (simp_all add: valid_text_def trim_def is_space_def)

lemma embedTexts_all_blank:
  "embedTexts maxRetries retryDelay prov [[CHR 0xA0], ''  '']
     = (Inl (EmbeddingError ''No valid texts provided''), [])"
  by (simp add: embedTexts_def Let_def valid_text_def trim_def is_space_def)

lemma upt_two: "[0..<length [''button'', ''menu'']] = [0, Suc 0]"
  by (simp add: upt_conv_Cons)

theorem embedTexts_order_witness:
  "\<exists>out. fst (embedTexts 3 1000 length_provider [''button'', ''menu'']) = Inr out
      \<and> length out = 2
      \<and> (\<forall>i < length out. (i, out ! i) \<in> set [(0, [6]), (1, [4])])"
proof -
  let ?texts = "[''button'', ''menu'']"
  let ?data = "[(0 :: nat, [6 :: real]), (1, [4])]"
  have f: "filter valid_text ?texts = ?texts"
    by (simp add: valid_text_samples)
  have h1: "(1 :: nat) \<le> 1" and h2: "(1 :: nat) \<le> 3" by simp_all
  have h3: "\<forall>j. 1 \<le> j \<and> j < 1 \<longrightarrow> isl (length_provider j (filter valid_text ?texts))"
    by simp
  have h4: "length_provider 1 (filter valid_text ?texts) = Inr ?data"
    unfolding f length_provider_def upt_two by simp
  have h5: "mset (map fst ?data) = mset [0..<length (filter valid_text ?texts)]"
    unfolding f upt_two by simp
  have h6: "filter valid_text ?texts \<noteq> []"
    unfolding f by simp
  show ?thesis
    using embedTexts_order [where a = 1 and maxRetries = 3 and prov = length_provider
        and texts = ?texts and data = ?data and retryDelay = 1000, OF h1 h2 h3 h4 h5 h6]
    unfolding f by auto
qed

text \<open>
  With a blank text in the input the output is shorter than the input, and the vector
  at position 1 belongs to the text at position 2.
\<close>

theorem embedTexts_blank_counterexample:
  "fst (embedTexts 3 1000 length_provider [''button'', ''  '', ''menu'']) = Inr [[6], [4]]
   \<and> length [[6 :: real], [4]] \<noteq> length [''button'', ''  '', ''menu'']"
proof -
  have f: "filter valid_text [''button'', ''  '', ''menu''] = [''button'', ''menu'']"
    by (simp add: valid_text_samples)
  have "createEmbedding_from 3 1000 length_provider [''button'', ''menu''] 1 []
          = (Inr (map snd (sort_key fst [(0 :: nat, [6]), (1, [4])])), [] @ map (\<lambda>j. 1000 * j) [1..<1])"
    using createEmbedding_from_success
      [of 1 1 3 length_provider "[''button'', ''menu'']" "[(0, [6]), (1, [4])]" 1000 "[]"]
    unfolding length_provider_def upt_two by simp
  then have "createEmbedding 3 1000 length_provider [''button'', ''menu''] = (Inr [[6], [4]], [])"
    by (simp add: createEmbedding_def)
  then have "fst (embedTexts 3 1000 length_provider [''button'', ''  '', ''menu'']) = Inr [[6], [4]]"
    by (simp add: embedTexts_def Let_def valid_text_samples)
  then show ?thesis by simp
qed

subsection \<open>Service: vector documents and their ids\<close>

lemma collectFacets_types:
  "(t, ty) \<in> set (collectFacets component) \<Longrightarrow> ty \<in> {Description, Api, Example}"
  by (auto simp: collectFacets_def split: if_splits)

lemma createComponentVectors_nth:
  assumes "createComponentVectors md5 embedTextsFn component = Inr vs" and "i < length vs"
  shows "i < length (collectFacets component)"
    and "content (vs ! i) = fst (collectFacets component ! i)"
    and "md_type (metadata (vs ! i)) = snd (collectFacets component ! i)"
    and "doc_id (vs ! i) =
           generateDocumentId md5 (componentName component)
             (idType (snd (collectFacets component ! i)) i) (fst (collectFacets component ! i))"
proof -
  let ?facets = "collectFacets component"
  show "i < length ?facets" "content (vs ! i) = fst (?facets ! i)"
    "md_type (metadata (vs ! i)) = snd (?facets ! i)"
    "doc_id (vs ! i) =
           generateDocumentId md5 (componentName component)
             (idType (snd (?facets ! i)) i) (fst (?facets ! i))"
    using assms
    by (auto simp: createComponentVectors_def Let_def facetMetadata_def
        split: if_splits sum.splits)
qed

text \<open>
  C5 (as the code has it).  Every vector document that \<open>createComponentVectors\<close>
  returns has a type among \<open>description\<close>, \<open>api\<close> and \<open>example\<close>, and the id
  \<open><componentName>-<T>-<the first 8 digits of md5(<componentName>-<T>-<content>)>\<close>
  where \<open>T\<close> is the type for a description or api document and \<open>example-<i>\<close> for
  an example document at position \<open>i\<close> of the returned list.  The id depends on the
  component and the position only: any other run on the same component gives the
  document at position \<open>i\<close> the same id.
\<close>

theorem createComponentVectors_ids:
  assumes "createComponentVectors md5 embedTextsFn component = Inr vs" and "i < length vs"
  shows "md_type (metadata (vs ! i)) \<in> {Description, Api, Example}
       \<and> doc_id (vs ! i) =
           (let T = (if md_type (metadata (vs ! i)) = Example then ''example-'' @ show_nat i
                     else facet_name (md_type (metadata (vs ! i))))
            in componentName component @ ''-'' @ T @ ''-''
               @ take 8 (md5 (componentName component @ ''-'' @ T @ ''-'' @ content (vs ! i))))
       \<and> (\<forall>embedTextsFn' vs'.
             createComponentVectors md5 embedTextsFn' component = Inr vs' \<and> i < length vs'
               \<longrightarrow> doc_id (vs' ! i) = doc_id (vs ! i))"
proof -
  note n = createComponentVectors_nth [OF assms]
  have "(fst (collectFacets component ! i), snd (collectFacets component ! i))
          \<in> set (collectFacets component)"
    using n(1) by simp
  then have ty: "md_type (metadata (vs ! i)) \<in> {Description, Api, Example}"
    unfolding n(3) by (rule collectFacets_types)
  have id: "doc_id (vs ! i) =
           (let T = (if md_type (metadata (vs ! i)) = Example then ''example-'' @ show_nat i
                     else facet_name (md_type (metadata (vs ! i))))
            in componentName component @ ''-'' @ T @ ''-''
               @ take 8 (md5 (componentName component @ ''-'' @ T @ ''-'' @ content (vs ! i))))"
    unfolding n(2) n(3) n(4) by (simp add: generateDocumentId_def idType_def Let_def)
  have det: "\<forall>embedTextsFn' vs'.
             createComponentVectors md5 embedTextsFn' component = Inr vs' \<and> i < length vs'
               \<longrightarrow> doc_id (vs' ! i) = doc_id (vs ! i)"
    using createComponentVectors_nth(4) n(4) by metis
  from ty id det show ?thesis by blast
qed

lemma show_nat_one: "show_nat (Suc 0) = ''1''"
  by (simp add: show_nat.simps [of "Suc 0"] digit_char_def)

lemma sample_facets:
  "collectFacets sample_component = [(''Button component'', Description), (''<Button />'', Example)]"
  by (simp add: collectFacets_def sample_component_def trim_def is_space_def)

lemma sample_embedding:
  "sample_embedder [''Button component'', ''<Button />''] = Inr [[16], [10]]"
proof -
  let ?texts = "[''Button component'', ''<Button />'']"
  have v: "filter valid_text ?texts = ?texts"
    by (simp add: valid_text_def trim_def is_space_def)
  have u: "[0..<length ?texts] = [0, Suc 0]"
    by (simp add: upt_conv_Cons)
  have "createEmbedding_from 3 1000 length_provider ?texts 1 []
          = (Inr (map snd (sort_key fst [(0 :: nat, [16]), (1, [10])])),
             [] @ map (\<lambda>j. 1000 * j) [1..<1])"
    using createEmbedding_from_success
      [of 1 1 3 length_provider ?texts "[(0, [16]), (1, [10])]" 1000 "[]"]
    unfolding length_provider_def u by simp
  then have "createEmbedding 3 1000 length_provider ?texts = (Inr [[16], [10]], [])"
    by (simp add: createEmbedding_def)
  then show ?thesis
    unfolding sample_embedder_def embedTexts_def Let_def v by simp
qed

lemma sample_vectors_created:
  "createComponentVectors sample_digest sample_embedder sample_component = Inr sample_vectors"
proof -
  have one: "show_nat 1 = ''1''"
    using show_nat_one by simp
  have meta: "componentName sample_component = ''Button''"
    "facetMetadata sample_component Description = metadata (sample_vectors ! 0)"
    "facetMetadata sample_component Example = metadata (sample_vectors ! 1)"
    by (simp_all add: sample_component_def facetMetadata_def sample_vectors_def)
  have ids: "generateDocumentId sample_digest ''Button'' (idType Description 0) ''Button component''
               = ''Button-description-9e107d9d''"
    "generateDocumentId sample_digest ''Button'' (idType Example (Suc 0)) ''<Button />''
               = ''Button-example-1-9e107d9d''"
    by (simp_all add: generateDocumentId_def idType_def sample_digest_def show_nat_one)
  have u: "[0..<length [[16 :: real], [10]]] = [0, 1]"
    by (simp add: upt_conv_Cons)
  show ?thesis
    unfolding createComponentVectors_def Let_def sample_facets
    by (simp add: sample_embedding u meta(1) ids facetMetadata_def sample_component_def
        sample_vectors_def)
qed

theorem createComponentVectors_ids_witness:
  "md_type (metadata (sample_vectors ! 1)) \<in> {Description, Api, Example}
   \<and> doc_id (sample_vectors ! 1) = ''Button-example-1-9e107d9d''
   \<and> doc_id (sample_vectors ! 1)
       = ''Button-example-1-'' @ take 8 (sample_digest ''Button-example-1-<Button />'')"
proof -
  have one: "show_nat 1 = ''1''"
    using show_nat_one by simp
  have i: "1 < length sample_vectors"
    by (simp add: sample_vectors_def)
  show ?thesis
    using createComponentVectors_ids [OF sample_vectors_created i]
    by (simp add: sample_vectors_def sample_component_def one sample_digest_def)
qed

text \<open>
  The id of an example document is not of the form the specification gives: the type
  part of the id carries the position.
\<close>

theorem createComponentVectors_example_id_counterexample:
  "createComponentVectors sample_digest sample_embedder sample_component = Inr sample_vectors
   \<and> md_type (metadata (sample_vectors ! 1)) = Example
   \<and> doc_id (sample_vectors ! 1) = ''Button-example-1-9e107d9d''
   \<and> doc_id (sample_vectors ! 1)
       \<noteq> specDocumentId sample_digest ''Button'' (md_type (metadata (sample_vectors ! 1)))
           (content (sample_vectors ! 1))"
  using sample_vectors_created
  by (simp add: sample_vectors_def specDocumentId_def sample_digest_def)

subsection \<open>Parser and service: the description facet\<close>

lemma dropWhile_keeps: "c \<in> set xs \<Longrightarrow> \<not> P c \<Longrightarrow> c \<in> set (dropWhile P xs)"
  by (induction xs) auto

lemma trim_nonempty:
  assumes "c \<in> set s" and "\<not> is_space c"
  shows "trim s \<noteq> []"
proof -
  have "c \<in> set (dropWhile is_space s)"
    using assms by (rule dropWhile_keeps)
  then have "c \<in> set (rev (dropWhile is_space s))" by simp
  then have "c \<in> set (dropWhile is_space (rev (dropWhile is_space s)))"
    using assms(2) by (rule dropWhile_keeps)
  then have "dropWhile is_space (rev (dropWhile is_space s)) \<noteq> []"
    by (metis empty_iff empty_set)
  then show ?thesis
    by (simp add: trim_def)
qed

lemma trim_has_nonspace:
  assumes "trim s \<noteq> []"
  shows "\<exists>c \<in> set (trim s). \<not> is_space c"
proof -
  let ?d = "dropWhile is_space (rev (dropWhile is_space s))"
  have ne: "?d \<noteq> []" using assms by (simp add: trim_def)
  then have "\<not> is_space (hd ?d)" by (rule hd_dropWhile)
  moreover have "hd ?d \<in> set (trim s)"
    using ne by (simp add: trim_def)
  ultimately show ?thesis by blast
qed

lemma valid_text_trim: "trim s \<noteq> [] \<Longrightarrow> valid_text (trim s)"
  unfolding valid_text_def using trim_has_nonspace trim_nonempty by blast

lemma valid_text_fallback: "valid_text (name @ '' component'')"
  unfolding valid_text_def
  by (rule trim_nonempty [of "CHR ''c''"]) (simp_all add: is_space_def)

lemma valid_text_nonempty: "valid_text t \<Longrightarrow> t \<noteq> []"
  by (auto simp: valid_text_def trim_def)

lemma extractDescription_valid: "valid_text (extractDescription md componentPath)"
  by (auto simp: extractDescription_def Let_def valid_text_fallback valid_text_trim
      split: option.split)

lemma parseComponent_success:
  assumes "parseComponent srcRoot pkg ver now files name = Inr pc"
  shows "status pc = Success"
    and "description (info pc) = extractDescription (markdown files) (componentDir srcRoot name)"
  using assms
  by (auto simp: parseComponent_def extractComponentDoc_def Let_def
      split: if_splits sum.splits js_error.splits)

lemma embedTexts_result:
  assumes "1 \<le> a" and "a \<le> maxRetries"
    and "\<forall>j. 1 \<le> j \<and> j < a \<longrightarrow> isl (prov j (filter valid_text texts))"
    and "prov a (filter valid_text texts) = Inr data"
    and "filter valid_text texts \<noteq> []"
  shows "fst (embedTexts maxRetries retryDelay prov texts) = Inr (map snd (sort_key fst data))"
proof -
  have ne: "texts \<noteq> []" using assms(5) by auto
  have ce: "createEmbedding maxRetries retryDelay prov (filter valid_text texts)
              = (Inr (map snd (sort_key fst data)), [] @ map (\<lambda>j. retryDelay * j) [1..<a])"
    unfolding createEmbedding_def
    using assms(1-4) by (intro createEmbedding_from_success) simp_all
  show ?thesis
    using ne assms(5) by (simp add: embedTexts_def Let_def ce)
qed

lemma createComponentVectors_length:
  assumes "collectFacets component \<noteq> []"
    and "embedTextsFn (map fst (collectFacets component)) = Inr embs"
    and "length embs \<le> length (collectFacets component)"
  shows "\<exists>vs. createComponentVectors md5 embedTextsFn component = Inr vs
            \<and> length vs = length embs"
  using assms by (simp add: createComponentVectors_def Let_def)

lemma createComponentVectors_first:
  assumes "description component \<noteq> []"
    and "embedTextsFn (map fst (collectFacets component)) = Inr (e # es)"
    and "length (e # es) \<le> length (collectFacets component)"
  shows "\<exists>v vs. createComponentVectors md5 embedTextsFn component = Inr (v # vs)
            \<and> md_type (metadata v) = Description \<and> content v = description component"
proof -
  obtain rest where f: "collectFacets component = (description component, Description) # rest"
    using assms(1) by (simp add: collectFacets_def)
  then have fne: "collectFacets component \<noteq> []" by simp
  obtain ws where ws: "createComponentVectors md5 embedTextsFn component = Inr ws"
    and len: "length ws = length (e # es)"
    using createComponentVectors_length
      [where embedTextsFn = embedTextsFn and component = component and embs = "e # es"
         and ?md5.0 = md5, OF fne assms(2,3)]
    by blast
  then obtain v vs where vvs: "ws = v # vs" by (cases ws) auto
  have i: "0 < length ws" using len by simp
  have "content (ws ! 0) = fst (collectFacets component ! 0)"
    "md_type (metadata (ws ! 0)) = snd (collectFacets component ! 0)"
    using createComponentVectors_nth [OF ws i] by simp_all
  then have "content v = description component" "md_type (metadata v) = Description"
    by (simp_all add: vvs f)
  then show ?thesis using ws vvs by blast
qed

lemma parseComponent_description_vector:
  assumes "parseComponent srcRoot pkg ver now files name = Inr pc"
    and "1 \<le> a" and "a \<le> maxRetries"
    and "\<forall>j. 1 \<le> j \<and> j < a \<longrightarrow>
           isl (prov j (filter valid_text (map fst (collectFacets (info pc)))))"
    and "prov a (filter valid_text (map fst (collectFacets (info pc)))) = Inr data"
    and "mset (map fst data)
           = mset [0..<length (filter valid_text (map fst (collectFacets (info pc))))]"
  shows "status pc = Success \<and> description (info pc) \<noteq> []
       \<and> (\<exists>v vs. createComponentVectors md5
                      (\<lambda>texts. fst (embedTexts maxRetries retryDelay prov texts)) (info pc)
                    = Inr (v # vs)
                  \<and> md_type (metadata v) = Description
                  \<and> content v = description (info pc))"
proof -
  let ?texts = "map fst (collectFacets (info pc))"
  let ?out = "map snd (sort_key fst data)"
  note p = parseComponent_success [OF assms(1)]
  have valid: "valid_text (description (info pc))"
    unfolding p(2) by (rule extractDescription_valid)
  then have ne: "description (info pc) \<noteq> []"
    by (rule valid_text_nonempty)
  obtain rest where f: "collectFacets (info pc) = (description (info pc), Description) # rest"
    using ne by (simp add: collectFacets_def)
  have vt: "filter valid_text ?texts \<noteq> []"
    using valid by (simp add: f)
  have res: "fst (embedTexts maxRetries retryDelay prov ?texts) = Inr ?out"
    using assms(2-5) vt by (rule embedTexts_result)
  have len: "length ?out = length (filter valid_text ?texts)"
    using assms(6) by (rule sorted_response_aligned(1))
  then have "?out \<noteq> []" using vt by (metis length_0_conv)
  then obtain e es where out: "?out = e # es" by (cases ?out) auto
  have "length (filter valid_text ?texts) \<le> length ?texts" by (rule length_filter_le)
  then have le: "length (e # es) \<le> length (collectFacets (info pc))"
    using len out by simp
  have "\<exists>v vs. createComponentVectors md5
                      (\<lambda>texts. fst (embedTexts maxRetries retryDelay prov texts)) (info pc)
                    = Inr (v # vs)
                  \<and> md_type (metadata v) = Description
                  \<and> content v = description (info pc)"
    using createComponentVectors_first
      [where embedTextsFn = "\<lambda>texts. fst (embedTexts maxRetries retryDelay prov texts)"
         and component = "info pc" and e = e and es = es and ?md5.0 = md5]
      ne le res out
    by simp
  then show ?thesis using p(1) ne by blast
qed

lemma extractDescription_fallback:
  assumes "name \<noteq> []" and "CHR ''/'' \<notin> set name"
  shows "extractDescription None (componentDir srcRoot name)
           = capitalizeComponentName name @ '' component''"
  using basename_path_join [OF assms]
  by (simp add: extractDescription_def componentDir_def)

lemma parseAllComponents_success:
  assumes "parseAllComponents srcRoot pkg ver now listing files_of = Inr pcs"
    and "pc \<in> set pcs" and "status pc = Success"
  shows "\<exists>name. parseComponent srcRoot pkg ver now (files_of name) name = Inr pc"
proof -
  obtain entries where l: "listing = Some entries"
    using assms(1) by (cases listing) (simp_all add: parseAllComponents_def)
  let ?f = "\<lambda>name. case parseComponent srcRoot pkg ver now (files_of name) name of
                      Inr p \<Rightarrow> p
                    | Inl e \<Rightarrow>
                        \<lparr>info = createEmptyComponentDoc pkg now name,
                         filePath = componentDir srcRoot name,
                         status = Error,
                         error = Some (err_message e)\<rparr>"
  have "pcs = map ?f (map fst (filter (\<lambda>(name, isDirectory).
                       isDirectory \<and> \<not> startsWith name ''_'') entries))"
    using assms(1) l by (simp add: parseAllComponents_def Let_def)
  then have "pc \<in> ?f ` set (map fst (filter (\<lambda>(name, isDirectory).
                       isDirectory \<and> \<not> startsWith name ''_'') entries))"
    using assms(2) by (metis list.set_map)
  then obtain name where n: "pc = ?f name"
    by blast
  show ?thesis
  proof (cases "parseComponent srcRoot pkg ver now (files_of name) name")
    case (Inl e)
    then have "status pc = Error" using n by simp
    then show ?thesis using assms(3) by simp
  next
    case (Inr p)
    then have "pc = p" using n by simp
    then show ?thesis using Inr by blast
  qed
qed

text \<open>
  C10.  A component that the parser returns with status success, from
  \<open>parseComponent\<close> or in the list of \<open>parseAllComponents\<close>, has a description
  that is not empty; and when the provider answers the embedder, within the allowed
  attempts, with one item per submitted text, facet expansion of the component
  returns at least one vector document, the first of which is the description
  document.  (Lemma \<open>extractDescription_fallback\<close>: when the documentation file
  cannot be read the description is \<open><ComponentName> component\<close>.)
\<close>

theorem parsed_component_has_description_vector:
  assumes "parseComponent srcRoot pkg ver now files name = Inr pc
           \<or> (\<exists>listing files_of pcs.
                 parseAllComponents srcRoot pkg ver now listing files_of = Inr pcs
                 \<and> pc \<in> set pcs \<and> status pc = Success)"
    and "1 \<le> a" and "a \<le> maxRetries"
    and "\<forall>j. 1 \<le> j \<and> j < a \<longrightarrow>
           isl (prov j (filter valid_text (map fst (collectFacets (info pc)))))"
    and "prov a (filter valid_text (map fst (collectFacets (info pc)))) = Inr data"
    and "mset (map fst data)
           = mset [0..<length (filter valid_text (map fst (collectFacets (info pc))))]"
  shows "status pc = Success \<and> description (info pc) \<noteq> []
       \<and> (\<exists>v vs. createComponentVectors md5
                      (\<lambda>texts. fst (embedTexts maxRetries retryDelay prov texts)) (info pc)
                    = Inr (v # vs)
                  \<and> md_type (metadata v) = Description
                  \<and> content v = description (info pc))"
proof -
  obtain files' name' where "parseComponent srcRoot pkg ver now files' name' = Inr pc"
    using assms(1) parseAllComponents_success by blast
  then show ?thesis
    using assms(2-6) by (rule parseComponent_description_vector)
qed

lemma sample_parse:
  "parseComponent ''/repo'' ''@private/basic-components'' ''5.10.0'' ''2025-01-01T00:00:00.000Z''
     sample_files ''button'' = Inr sample_parsed"
proof -
  have dir: "componentDir ''/repo'' ''button'' = ''/repo/components/button''"
    by (simp add: componentDir_def path_join_def)
  have base: "basename ''/repo/components/button'' = ''button''"
    by (simp add: basename_def)
  have tg: "extractTags ''/repo/components/button''
              = Inr [''form'', ''action'', ''ui'', ''interactive'', ''react'', ''component'']"
    by (simp add: extractTags_def base lower_defs tagMapping_def)
  have cap: "capitalizeComponentName ''button'' = ''Button''"
    by (simp add: capitalizeComponentName_def capitalizeWord_def toUpperCase_def upper_char_def
        upper_letters_def lower_letters_def)
  have descr: "extractDescription None ''/repo/components/button'' = ''Button component''"
    by (simp add: extractDescription_def base cap)
  show ?thesis
    by (simp add: parseComponent_def Let_def dir extractComponentDoc_def tg cap descr
        sample_files_def sample_parsed_def sample_component_def)
qed

theorem parsed_component_has_description_vector_witness:
  "status sample_parsed = Success \<and> description (info sample_parsed) \<noteq> []
   \<and> (\<exists>v vs. createComponentVectors sample_digest
                  (\<lambda>texts. fst (embedTexts 3 1000 length_provider texts)) (info sample_parsed)
                = Inr (v # vs)
              \<and> md_type (metadata v) = Description
              \<and> content v = description (info sample_parsed))"
proof -
  let ?texts = "[''Button component'', ''<Button />'']"
  have t: "map fst (collectFacets (info sample_parsed)) = ?texts"
    by (simp add: sample_parsed_def sample_facets)
  have v: "filter valid_text ?texts = ?texts"
    by (simp add: valid_text_def trim_def is_space_def)
  have u: "[0..<length ?texts] = [0, Suc 0]"
    by (simp add: upt_conv_Cons)
  have h2: "(1 :: nat) \<le> 1" and h3: "(1 :: nat) \<le> 3" by simp_all
  have h4: "\<forall>j. 1 \<le> j \<and> j < 1 \<longrightarrow>
           isl (length_provider j (filter valid_text (map fst (collectFacets (info sample_parsed)))))"
    by simp
  have h5: "length_provider 1 (filter valid_text (map fst (collectFacets (info sample_parsed))))
              = Inr [(0, [16]), (1, [10])]"
    unfolding t v length_provider_def u by simp
  have h6: "mset (map fst [(0 :: nat, [16 :: real]), (1, [10])])
              = mset [0..<length (filter valid_text (map fst (collectFacets (info sample_parsed))))]"
    unfolding t v u by simp
  show ?thesis
    by (rule parsed_component_has_description_vector
          [where prov = length_provider and a = 1 and maxRetries = 3 and retryDelay = 1000
             and ?md5.0 = sample_digest, OF disjI1 [OF sample_parse] h2 h3 h4 h5 h6])
qed

subsection \<open>Service: the counters of a sync\<close>

lemma processComponent_error_nonempty: "processComponent mkVectors pc = Failure e \<Longrightarrow> e \<noteq> []"
  by (auto simp: processComponent_def split: if_splits sum.splits)

lemma collectResults_count:
  assumes "\<forall>e. Failure e \<in> set rs \<longrightarrow> e \<noteq> []"
    and "collectResults rs (vd, sc, errs) = (vd', sc', errs')"
  shows "sc' + int (length errs') = sc + int (length errs) + int (length rs)"
  using assms
proof (induction rs arbitrary: vd sc errs)
  case Nil
  then show ?case by simp
next
  case (Cons r rs)
  show ?case
  proof (cases r)
    case (Vectors vs)
    then show ?thesis using Cons.IH [of "vd @ vs" "sc + 1" errs] Cons.prems by simp
  next
    case (Failure e)
    then have "e \<noteq> []" using Cons.prems(1) by simp
    then show ?thesis using Cons.IH [of vd sc "errs @ [e]"] Cons.prems Failure by simp
  qed
qed

lemma concat_batches: "concat (batches xs) = xs"
proof (induction xs rule: batches.induct)
  case (1 xs)
  show ?case
  proof (cases "xs = []")
    case True
    then show ?thesis by (simp add: batches.simps)
  next
    case False
    then show ?thesis using 1 by (subst batches.simps) simp
  qed
qed

lemma addDocuments_ok: "\<exists>st'. addDocuments True st docs = Inr st'"
  by (simp add: addDocuments_def Let_def)

lemma runBatches_count:
  assumes "\<forall>b. addOk b"
  shows "\<exists>sc' errs' st'.
           runBatches mkVectors addOk i bs (sc, errs, st) = ((sc', errs', st'), None)
           \<and> sc' + int (length errs') = sc + int (length errs) + int (length (concat bs))"
proof (induction bs arbitrary: i sc errs st)
  case Nil
  then show ?case by simp
next
  case (Cons batch rest)
  let ?rs = "map (processComponent mkVectors) batch"
  obtain vd sc1 errs1 where c: "collectResults ?rs ([], sc, errs) = (vd, sc1, errs1)"
    by (metis prod_cases3)
  have ne: "\<forall>e. Failure e \<in> set ?rs \<longrightarrow> e \<noteq> []"
  proof (intro allI impI)
    fix e assume "Failure e \<in> set ?rs"
    then obtain pc where "processComponent mkVectors pc = Failure e" by auto
    then show "e \<noteq> []" by (rule processComponent_error_nonempty)
  qed
  have cnt: "sc1 + int (length errs1) = sc + int (length errs) + int (length batch)"
    using collectResults_count [OF ne c] by simp
  show ?case
  proof (cases "vd = []")
    case True
    obtain sc' errs' st' where
      r: "runBatches mkVectors addOk (i + 1) rest (sc1, errs1, st) = ((sc', errs', st'), None)"
      and n: "sc' + int (length errs') = sc1 + int (length errs1) + int (length (concat rest))"
      using Cons.IH [of "i + 1" sc1 errs1 st] by blast
    show ?thesis
      using True c r n cnt by (simp add: Let_def)
  next
    case False
    obtain st1 where a: "addDocuments (addOk i) st vd = Inr st1"
      using addDocuments_ok assms by metis
    obtain sc' errs' st' where
      r: "runBatches mkVectors addOk (i + 1) rest (sc1, errs1, st1) = ((sc', errs', st'), None)"
      and n: "sc' + int (length errs') = sc1 + int (length errs1) + int (length (concat rest))"
      using Cons.IH [of "i + 1" sc1 errs1 st1] by blast
    show ?thesis
      using False c a r n cnt by (simp add: Let_def)
  qed
qed

text \<open>
  C4 (as the code has it).  Every sync answers with
  \<open>processedCount = successCount + failedCount\<close>.  When the components directory
  could be listed, the store operations succeed and the packages filter, if there is
  one, excludes no parsed component, the number of entries of \<open>errors\<close> is
  \<open>failedCount\<close> and \<open>processedCount\<close> is the number of parsed components.
\<close>

theorem syncComponents_counts:
  "processedCount (fst (syncComponents mkVectors env st request))
     = successCount (fst (syncComponents mkVectors env st request))
       + failedCount (fst (syncComponents mkVectors env st request))
   \<and> (\<forall>ps. parsed env = Inr ps
          \<and> (forceReindex request \<longrightarrow> clear_ok env)
          \<and> (\<forall>b. add_ok env b)
          \<and> (\<forall>names. packages request = Some names
                \<longrightarrow> (\<forall>p \<in> set ps. packageName (info p) \<in> set names))
        \<longrightarrow> int (length (errors (fst (syncComponents mkVectors env st request))))
              = failedCount (fst (syncComponents mkVectors env st request))
            \<and> processedCount (fst (syncComponents mkVectors env st request)) = int (length ps))"
proof (intro conjI allI impI)
  show "processedCount (fst (syncComponents mkVectors env st request))
     = successCount (fst (syncComponents mkVectors env st request))
       + failedCount (fst (syncComponents mkVectors env st request))"
    by (simp add: syncComponents_def caughtResponse_def Let_def
        split: sum.split option.split prod.split)
next
  fix ps
  assume h: "parsed env = Inr ps
          \<and> (forceReindex request \<longrightarrow> clear_ok env)
          \<and> (\<forall>b. add_ok env b)
          \<and> (\<forall>names. packages request = Some names
                \<longrightarrow> (\<forall>p \<in> set ps. packageName (info p) \<in> set names))"
  let ?toSync = "case packages request of
                   Some names \<Rightarrow> filter (\<lambda>comp. packageName (info comp) \<in> set names) ps
                 | None \<Rightarrow> ps"
  have hp: "parsed env = Inr ps" using h by simp
  have all: "?toSync = ps"
    using h by (auto split: option.split)
  have "\<exists>st1. (if forceReindex request then clear (clear_ok env) st else Inr st) = Inr st1"
    using h by (cases "forceReindex request") (simp_all add: clear_def)
  then obtain st1 where
    cl: "(if forceReindex request then clear (clear_ok env) st else Inr st) = Inr st1"
    by blast
  obtain sc errs st2 where
    run: "runBatches mkVectors (add_ok env) 0 (batches ps) (0, [], st1) = ((sc, errs, st2), None)"
    and cnt: "sc + int (length errs) = 0 + int (length ([] :: string list)) + int (length (concat (batches ps)))"
    using runBatches_count [of "add_ok env" mkVectors 0 "batches ps" 0 "[]" st1] h by blast
  have cnt': "sc + int (length errs) = int (length ps)"
    using cnt by (simp add: concat_batches)
  have res: "fst (syncComponents mkVectors env st request)
               = \<lparr>sync_status = (if errs = [] then SyncSuccess
                                 else if sc > 0 then SyncPartial else SyncFailed),
                  processedCount = int (length ps), successCount = sc,
                  failedCount = int (length ps) - sc, errors = errs\<rparr>"
    using cl run by (simp add: syncComponents_def Let_def hp all)
  show "int (length (errors (fst (syncComponents mkVectors env st request))))
              = failedCount (fst (syncComponents mkVectors env st request))"
    unfolding res using cnt' by simp
  show "processedCount (fst (syncComponents mkVectors env st request)) = int (length ps)"
    unfolding res by simp
qed

text \<open>
  Two runs of the sample sync.  With a filter that names another package,
  \<open>processedCount\<close> still counts every parsed component and so does \<open>failedCount\<close>,
  while nothing failed and the status is success.  Without filter, one component
  succeeds and one fails.
\<close>

lemma syncComponents_filter_example:
  "fst (syncComponents (createComponentVectors sample_digest sample_embedder)
          sample_sync_env empty_store other_package_request)
     = \<lparr>sync_status = SyncSuccess, processedCount = 2, successCount = 0, failedCount = 2,
        errors = []\<rparr>"
proof -
  have pk: "packageName (info sample_parsed) = ''@private/basic-components''"
    "packageName (info broken_parsed) = ''@private/basic-components''"
    by (simp_all add: sample_parsed_def sample_component_def broken_parsed_def
        createEmptyComponentDoc_def)
  show ?thesis
    by (simp add: syncComponents_def sample_sync_env_def other_package_request_def Let_def pk
        batches.simps [of "[]"])
qed

lemma syncComponents_partial_example:
  "fst (syncComponents (createComponentVectors sample_digest sample_embedder)
          sample_sync_env empty_store sample_request)
     = \<lparr>sync_status = SyncPartial, processedCount = 2, successCount = 1, failedCount = 1,
        errors = [''Modal: Failed to parse component modal: Error: ENOENT: no such file or directory'']\<rparr>"
proof -
  have b: "batches [sample_parsed, broken_parsed] = [[sample_parsed, broken_parsed]]"
    by (simp add: batches.simps [of "[sample_parsed, broken_parsed]"] batches.simps [of "[]"]
        BATCH_SIZE_def)
  have p1: "processComponent (createComponentVectors sample_digest sample_embedder) sample_parsed
              = Vectors sample_vectors"
    by (simp add: processComponent_def sample_parsed_def sample_vectors_created)
  have cap: "capitalizeComponentName ''modal'' = ''Modal''"
    by (simp add: capitalizeComponentName_def capitalizeWord_def toUpperCase_def upper_char_def
        upper_letters_def lower_letters_def)
  have p2: "processComponent (createComponentVectors sample_digest sample_embedder) broken_parsed
              = Failure ''Modal: Failed to parse component modal: Error: ENOENT: no such file or directory''"
    by (simp add: processComponent_def broken_parsed_def createEmptyComponentDoc_def cap)
  have sv: "sample_vectors \<noteq> []" by (simp add: sample_vectors_def)
  obtain st' where a: "addDocuments True empty_store sample_vectors = Inr st'"
    using addDocuments_ok by blast
  show ?thesis
    by (simp add: syncComponents_def sample_sync_env_def sample_request_def Let_def b p1 p2 sv a)
qed

theorem syncComponents_counts_witness:
  "processedCount (fst (syncComponents (createComponentVectors sample_digest sample_embedder)
                          sample_sync_env empty_store sample_request)) = 2
   \<and> successCount (fst (syncComponents (createComponentVectors sample_digest sample_embedder)
                          sample_sync_env empty_store sample_request)) = 1
   \<and> failedCount (fst (syncComponents (createComponentVectors sample_digest sample_embedder)
                          sample_sync_env empty_store sample_request)) = 1
   \<and> length (errors (fst (syncComponents (createComponentVectors sample_digest sample_embedder)
                              sample_sync_env empty_store sample_request))) = 1"
  using syncComponents_counts [of "createComponentVectors sample_digest sample_embedder"
      sample_sync_env empty_store sample_request]
  by (simp add: syncComponents_partial_example)

text \<open>
  The response of the \<open>catch\<close>: one more entry in \<open>errors\<close>, the counters as they
  were when the error was thrown.  It is the response when the components directory
  cannot be listed, when \<open>clear\<close> fails and when an \<open>addDocuments\<close> fails.
\<close>

lemma caughtResponse_fields:
  "sync_status (caughtResponse processed succeeded errs e) = SyncFailed"
  "length (errors (caughtResponse processed succeeded errs e)) = length errs + 1"
  "failedCount (caughtResponse processed succeeded errs e) = processed - succeeded"
  by (simp_all add: caughtResponse_def)

lemma syncComponents_parse_failure:
  "parsed env = Inl e \<Longrightarrow>
     fst (syncComponents mkVectors env st request) = caughtResponse 0 0 [] e"
  by (simp add: syncComponents_def)

lemma syncComponents_clear_failure:
  "parsed env = Inr ps \<Longrightarrow> forceReindex request \<Longrightarrow> \<not> clear_ok env \<Longrightarrow>
     fst (syncComponents mkVectors env st request)
       = caughtResponse (int (length ps)) 0 [] (VectorStoreError ''Failed to clear vector store'')"
  by (simp add: syncComponents_def Let_def clear_def)

text \<open>
  When the components directory cannot be listed the \<open>catch\<close> of \<open>syncComponents\<close>
  reports the error in \<open>errors\<close> while no component is counted as failed.
\<close>

theorem syncComponents_fatal_counterexample:
  "failedCount (fst (syncComponents (createComponentVectors sample_digest sample_embedder)
                       unreadable_env empty_store sample_request)) = 0
   \<and> length (errors (fst (syncComponents (createComponentVectors sample_digest sample_embedder)
                            unreadable_env empty_store sample_request))) = 1"
  by (simp add: syncComponents_def unreadable_env_def caughtResponse_def)

subsection \<open>Vector store: similarity search\<close>
















text \<open>
  The invariant holds of the empty store and is kept by the operations of the store,
  for \<open>addDocuments\<close> when the ids of the batch are distinct.
\<close>

lemma store_ok_empty: "store_ok empty_store"
  by (simp add: store_ok_def empty_store_def)

lemma store_ok_clear: "clear io_ok st = Inr st' \<Longrightarrow> store_ok st'"
  by (auto simp: clear_def store_ok_def split: if_splits)

lemma store_ok_deleteDocuments:
  assumes "store_ok st" and "deleteDocuments io_ok st ids = Inr st'"
  shows "store_ok st'"
proof -
  have "filter (\<lambda>item. ie_id item \<notin> set ids) (map entry_of (documents st))
          = map entry_of (filter (\<lambda>doc. doc_id doc \<notin> set ids) (documents st))"
    by (simp add: filter_map comp_def entry_of_def)
  then show ?thesis
    using assms
    by (auto simp: deleteDocuments_def store_ok_def Let_def distinct_map_filter split: if_splits)
qed

lemma store_ok_addDocuments:
  assumes "store_ok st" and "distinct (map doc_id docs)"
    and "addDocuments io_ok st docs = Inr st'"
  shows "store_ok st'"
proof -
  let ?new = "filter (\<lambda>doc. doc_id doc \<notin> set (map doc_id (documents st))) docs"
  have d: "distinct (map doc_id ?new)"
    using assms(2) by (rule distinct_map_filter)
  have disj: "set (map doc_id (documents st)) \<inter> set (map doc_id ?new) = {}"
    by (auto simp: image_iff)
  have "distinct (map doc_id (documents st @ ?new))"
    using assms(1) d disj by (simp add: store_ok_def)
  then show ?thesis
    using assms(1,3)
    by (auto simp: addDocuments_def store_ok_def Let_def split: if_splits)
qed





lemma similaritySearch_example:
  "similaritySearch exact one_package_store [1, 0] 5 (1 / 2) = Inr [button_doc ''@private/basic-components'']"
proof -
  have c: "cosineSimilarityFl exact [1, 0] [1, 0] = Some 1"
    by (simp add: cosineSimilarityFl_def cosineFl_def exact_def)
  show ?thesis
    by (simp add: similaritySearch_def one_package_store_def entry_of_def button_doc_def c
        Let_def List.map_filter_simps docMap_def)
qed




end
